theory Spec2Isabelle
  imports Main "HOL-Library.AList" "HOL-Library.Sublist"
begin

section \<open>The Earthfile listener of earthfile2llb/listener.go\<close>

text \<open>
  The listener receives the enter/exit callbacks of the parse-tree walk, keeps the
  cross-statement state in one struct and calls the converter (the graph builder).
  Strings are Go strings, that is byte sequences: \<^typ>\<open>string\<close>.
\<close>

subsection \<open>Errors, platforms and the calls the converter receives\<close>

text \<open>
  An error value is what \<^verbatim>\<open>fmt.Errorf\<close>/\<^verbatim>\<open>errors.New\<close> built (the message
  template with its operands, not yet rendered; a slice operand gives its elements), what
  \<^verbatim>\<open>errors.Wrap\<close>/\<^verbatim>\<open>errors.Wrapf\<close> built around another error, or an error
  handed back by a collaborator.
\<close>

datatype error =
    Errorf string "string list"
  | Wrap error string "string list"
  | External string

text \<open>The \<^verbatim>\<open>specs.Platform\<close> struct of the OCI image specification.\<close>

record Platform =
  Architecture :: string
  OS :: string
  OSVersion :: string
  OSFeatures :: "string list"
  Variant :: string

datatype DockerPullOpt =
  DockerPullOpt (pullImageName: string) (pullPlatform: "Platform option")

datatype DockerLoadOpt =
  DockerLoadOpt (loadTarget: string) (loadImageName: string)
                (loadPlatform: "Platform option") (loadBuildArgs: "string list")

text \<open>
  \<^verbatim>\<open>WithDockerOpt\<close> is declared beside the converter; the fields are the ones the
  listener reads and writes.
\<close>

record WithDockerOpt =
  Mounts :: "string list"
  Secrets :: "string list"
  WithShell :: bool
  WithEntrypoint :: bool
  Pulls :: "DockerPullOpt list"
  Loads :: "DockerLoadOpt list"
  ComposeFiles :: "string list"
  ComposeServices :: "string list"

text \<open>
  One constructor for each converter method the listener calls, with the arguments in
  the order of the Go call (the context argument left out). A nil slice is the empty
  list, a nil platform is \<^term>\<open>None\<close>; the label map is an association list with
  distinct keys.
\<close>

datatype call =
    From string "Platform option" "string list"
  | FromDockerfile string string string "Platform option" "string list"
  | CopyArtifact string string "Platform option" "string list" bool bool bool string bool
  | CopyClassical "string list" string bool bool bool string
  | Run "string list" "string list" "string list" bool bool bool bool bool bool
  | WithDockerRun "string list" WithDockerOpt
  | SaveArtifact string string string bool bool bool
  | SaveImage "string list" bool bool bool "string list"
  | Build string "Platform option" "string list"
  | Workdir string
  | User string
  | Cmd "string list" bool
  | Entrypoint "string list" bool
  | Expose "string list"
  | Volume "string list"
  | Env string string
  | Arg string string bool
  | Label "(string \<times> string) list"
  | GitClone string string string bool
  | Healthcheck bool "string list" int int int int

text \<open>
  The collaborators, none of them in this file of the repository. The converter is a
  stateful object; what it answers may depend on every call it has received, so its
  two observable behaviours take the calls made so far: \<open>convResult\<close> is the error
  result of a method that returns one (\<^term>\<open>None\<close> is nil), \<open>convExpandArgs\<close> is
  \<^verbatim>\<open>Converter.ExpandArgs\<close>. \<open>parseArtifact\<close> is \<^verbatim>\<open>domain.ParseArtifact\<close> followed by
  \<^verbatim>\<open>String()\<close> of the artifact; \<open>parsePlatform\<close> is \<^verbatim>\<open>platforms.Parse\<close>;
  \<open>jsonWords\<close> is \<^verbatim>\<open>json.Unmarshal\<close> into a \<^verbatim>\<open>[]string\<close>; \<open>parseDuration\<close> and
  \<open>parseInt\<close> are the value parsers of the flag package's duration and int flags.
\<close>

record extern =
  convResult :: "call list \<Rightarrow> call \<Rightarrow> error option"
  convExpandArgs :: "call list \<Rightarrow> string \<Rightarrow> string"
  parseArtifact :: "string \<Rightarrow> string option"
  parsePlatform :: "string \<Rightarrow> error + Platform"
  jsonWords :: "string \<Rightarrow> string list option"
  parseDuration :: "string \<Rightarrow> int option"
  parseInt :: "string \<Rightarrow> int option"

subsection \<open>String helpers\<close>

definition backslash :: char where
  "backslash = CHR 0x5C"

text \<open>\<^verbatim>\<open>strings.ReplaceAll(str, "\\+", "\\\\+")\<close>: backslash-plus becomes two backslashes and a plus.\<close>

fun escapeSlashPlus :: "string \<Rightarrow> string" where
  "escapeSlashPlus (a # b # s) =
     (if a = backslash \<and> b = CHR ''+'' then backslash # backslash # CHR ''+'' # escapeSlashPlus s
      else a # escapeSlashPlus (b # s))"
| "escapeSlashPlus s = s"

text \<open>\<^verbatim>\<open>strings.ReplaceAll(str, "\\+", "+")\<close>.\<close>

fun unescapeSlashPlus :: "string \<Rightarrow> string" where
  "unescapeSlashPlus (a # b # s) =
     (if a = backslash \<and> b = CHR ''+'' then CHR ''+'' # unescapeSlashPlus s
      else a # unescapeSlashPlus (b # s))"
| "unescapeSlashPlus s = s"

definition isBlank :: "char \<Rightarrow> bool" where
  "isBlank c = (c = CHR 0x09 \<or> c = CHR '' '')"

text \<open>
  \<^verbatim>\<open>lineContinuationRegexp.ReplaceAllString(str, "")\<close> for the pattern
  backslash, then LF or CR LF, then any run of tabs and spaces.
\<close>

function replaceEscape :: "string \<Rightarrow> string" where
  "replaceEscape [] = []"
| "replaceEscape (c # s) =
     (if c = backslash \<and> take 1 s = [CHR 0x0A] then replaceEscape (dropWhile isBlank (drop 1 s))
      else if c = backslash \<and> take 2 s = [CHR 0x0D, CHR 0x0A]
        then replaceEscape (dropWhile isBlank (drop 2 s))
      else c # replaceEscape s)"
  by pat_completeness auto
termination
proof (relation "measure length")
  show "wf (measure length)" by simp
next
  fix c :: char and s :: string
  have "length (dropWhile isBlank (drop 1 s)) \<le> length (drop 1 s)"
    by (rule length_dropWhile_le)
  then show "(dropWhile isBlank (drop 1 s), c # s) \<in> measure length" by simp
next
  fix c :: char and s :: string
  have "length (dropWhile isBlank (drop 2 s)) \<le> length (drop 2 s)"
    by (rule length_dropWhile_le)
  then show "(dropWhile isBlank (drop 2 s), c # s) \<in> measure length" by simp
next
  fix c :: char and s :: string
  show "(s, c # s) \<in> measure length" by simp
qed

definition isNameStart :: "char \<Rightarrow> bool" where
  "isNameStart c = (let n = (of_char c :: nat) in
     (97 \<le> n \<and> n \<le> 122) \<or> (65 \<le> n \<and> n \<le> 90) \<or> c = CHR ''_'')"

definition isNameChar :: "char \<Rightarrow> bool" where
  "isNameChar c = (let n = (of_char c :: nat) in isNameStart c \<or> (48 \<le> n \<and> n \<le> 57))"

text \<open>\<^verbatim>\<open>envVarNameRegexp\<close> is \<^verbatim>\<open>^[a-zA-Z_]+[a-zA-Z0-9_]*$\<close>.\<close>

definition checkEnvVarName :: "string \<Rightarrow> error option" where
  "checkEnvVarName str =
     (if str \<noteq> [] \<and> isNameStart (hd str) \<and> list_all isNameChar (tl str) then None
      else Some (Errorf ''invalid env key definition %s'' [str]))"

text \<open>\<^verbatim>\<open>strings.TrimSuffix(s, ":")\<close>.\<close>

definition trimColon :: "string \<Rightarrow> string" where
  "trimColon s = (if s \<noteq> [] \<and> last s = CHR '':'' then butlast s else s)"

text \<open>
  \<^verbatim>\<open>parseLoad\<close>: image name and target of a \<^verbatim>\<open>--load\<close> value, split at the first
  equals sign. Its error result is nil on every path.
\<close>

definition parseLoad :: "string \<Rightarrow> string \<times> string" where
  "parseLoad loadStr =
     (if CHR ''='' \<in> set loadStr
      then (takeWhile (\<lambda>c. c \<noteq> CHR ''='') loadStr, drop 1 (dropWhile (\<lambda>c. c \<noteq> CHR ''='') loadStr))
      else ([], loadStr))"

subsection \<open>The flag package\<close>

text \<open>
  The listener decodes options with Go's standard \<^verbatim>\<open>flag.FlagSet\<close>. A flag set is the
  list of declared names with their kinds; \<^verbatim>\<open>Parse\<close> gives the settings made, in
  order, and the remaining positional arguments (\<^verbatim>\<open>fs.Args()\<close>), or the first error.
\<close>

datatype flagKind = BoolFlag | StringFlag | SliceFlag | DurationFlag | IntFlag

datatype flagValue = BoolV bool | StringV string | IntV int

text \<open>\<^verbatim>\<open>strconv.ParseBool\<close>.\<close>

definition parseBool :: "string \<Rightarrow> bool option" where
  "parseBool s =
     (if s \<in> set [''1'', ''t'', ''T'', ''TRUE'', ''true'', ''True''] then Some True
      else if s \<in> set [''0'', ''f'', ''F'', ''FALSE'', ''false'', ''False''] then Some False
      else None)"

text \<open>\<^verbatim>\<open>Value.Set\<close> of a flag that takes a value.\<close>

definition setValue :: "extern \<Rightarrow> flagKind \<Rightarrow> string \<Rightarrow> flagValue option" where
  "setValue x k v =
     (case k of
        BoolFlag \<Rightarrow> map_option BoolV (parseBool v)
      | StringFlag \<Rightarrow> Some (StringV v)
      | SliceFlag \<Rightarrow> Some (StringV v)
      | DurationFlag \<Rightarrow> map_option IntV (parseDuration x v)
      | IntFlag \<Rightarrow> map_option IntV (parseInt x v))"

text \<open>
  \<^verbatim>\<open>FlagSet.Parse\<close> with \<^verbatim>\<open>ContinueOnError\<close>, one round of the loop per step of the
  recursion (\<^verbatim>\<open>parseOne\<close>). An argument shorter than two bytes or not starting with a
  dash ends the flags; so does \<^verbatim>\<open>--\<close>, which is dropped. A flag name runs to the first
  equals sign. A boolean flag takes a value only after an equals sign; any other flag
  takes the next argument when it has none.
\<close>

fun parseFlags ::
  "extern \<Rightarrow> (string \<times> flagKind) list \<Rightarrow> string list \<Rightarrow> (string \<times> flagValue) list
     \<Rightarrow> error + ((string \<times> flagValue) list \<times> string list)" where
  "parseFlags x fs [] acc = Inr (acc, [])"
| "parseFlags x fs (s # rest) acc =
     (if length s < 2 \<or> hd s \<noteq> CHR ''-'' then Inr (acc, s # rest)
      else if s = ''--'' then Inr (acc, rest)
      else
        let name0 = (if s ! 1 = CHR ''-'' then drop 2 s else drop 1 s) in
        if name0 = [] \<or> hd name0 = CHR ''-'' \<or> hd name0 = CHR ''=''
        then Inl (Errorf ''bad flag syntax: %s'' [s])
        else
          let hasValue = (CHR ''='' \<in> set name0);
              name = takeWhile (\<lambda>c. c \<noteq> CHR ''='') name0;
              val = drop 1 (dropWhile (\<lambda>c. c \<noteq> CHR ''='') name0)
          in case map_of fs name of
               None \<Rightarrow>
                 if name = ''help'' \<or> name = ''h'' then Inl (Errorf ''flag: help requested'' [])
                 else Inl (Errorf ''flag provided but not defined: -%s'' [name])
             | Some k \<Rightarrow>
                 if k = BoolFlag then
                   (case parseBool (if hasValue then val else ''true'') of
                      None \<Rightarrow> Inl (Errorf ''invalid boolean value %q for -%s: %v'' [val, name])
                    | Some b \<Rightarrow> parseFlags x fs rest (acc @ [(name, BoolV b)]))
                 else if hasValue then
                   (case setValue x k val of
                      None \<Rightarrow> Inl (Errorf ''invalid value %q for flag -%s: %v'' [val, name])
                    | Some v \<Rightarrow> parseFlags x fs rest (acc @ [(name, v)]))
                 else
                   (case rest of
                      [] \<Rightarrow> Inl (Errorf ''flag needs an argument: -%s'' [name])
                    | a # rest' \<Rightarrow>
                        (case setValue x k a of
                           None \<Rightarrow> Inl (Errorf ''invalid value %q for flag -%s: %v'' [a, name])
                         | Some v \<Rightarrow> parseFlags x fs rest' (acc @ [(name, v)]))))"

text \<open>Reading a flag after \<^verbatim>\<open>Parse\<close>: the last setting wins; a slice flag collects all.\<close>

definition boolOpt :: "(string \<times> flagValue) list \<Rightarrow> string \<Rightarrow> bool" where
  "boolOpt vs n = (case map_of (rev vs) n of Some (BoolV b) \<Rightarrow> b | _ \<Rightarrow> False)"

definition stringOpt :: "(string \<times> flagValue) list \<Rightarrow> string \<Rightarrow> string" where
  "stringOpt vs n = (case map_of (rev vs) n of Some (StringV s) \<Rightarrow> s | _ \<Rightarrow> [])"

definition intOpt :: "(string \<times> flagValue) list \<Rightarrow> string \<Rightarrow> int \<Rightarrow> int" where
  "intOpt vs n d = (case map_of (rev vs) n of Some (IntV i) \<Rightarrow> i | _ \<Rightarrow> d)"

fun sliceOpt :: "(string \<times> flagValue) list \<Rightarrow> string \<Rightarrow> string list" where
  "sliceOpt [] n = []"
| "sliceOpt ((k, StringV s) # vs) n = (if k = n then s # sliceOpt vs n else sliceOpt vs n)"
| "sliceOpt (_ # vs) n = sliceOpt vs n"

subsection \<open>The listener\<close>

text \<open>
  The struct of the listener. \<open>calls\<close> stands for the converter the listener points
  to: every call it has received, oldest first. \<open>stdout\<close> is what the listener has
  printed. The context field is passed through unchanged and left out.
\<close>

record listener =
  executeTarget :: string
  currentTarget :: string
  targetFound :: bool
  pushOnlyAllowed :: bool
  envArgKey :: string
  envArgValue :: string
  labelKeys :: "string list"
  labelValues :: "string list"
  withDocker :: "WithDockerOpt option"
  withDockerRan :: bool
  execMode :: bool
  stmtWords :: "string list"
  err :: "error option"
  calls :: "call list"
  stdout :: "string list"

definition newListener :: "string \<Rightarrow> listener" where
  "newListener target =
     \<lparr> executeTarget = target, currentTarget = ''base'', targetFound = (target = ''base''),
       pushOnlyAllowed = False, envArgKey = [], envArgValue = [], labelKeys = [],
       labelValues = [], withDocker = None, withDockerRan = False, execMode = False,
       stmtWords = [], err = None, calls = [], stdout = [] \<rparr>"

definition Err :: "listener \<Rightarrow> error option" where
  "Err l =
     (if err l \<noteq> None then err l
      else if \<not> targetFound l then Some (Errorf ''target %s not defined'' [executeTarget l])
      else None)"

definition shouldSkip :: "listener \<Rightarrow> bool" where
  "shouldSkip l = (err l \<noteq> None \<or> currentTarget l \<noteq> executeTarget l)"

definition expandArgs :: "extern \<Rightarrow> listener \<Rightarrow> string \<Rightarrow> bool \<Rightarrow> string" where
  "expandArgs x l word keepPlusEscape =
     (let ret = convExpandArgs x (calls l) (escapeSlashPlus word)
      in if keepPlusEscape then ret else unescapeSlashPlus ret)"

text \<open>\<^verbatim>\<open>l.err = e; return\<close>.\<close>

definition setErr :: "error \<Rightarrow> listener \<Rightarrow> listener" where
  "setErr e l = l\<lparr>err := Some e\<rparr>"

text \<open>A call of a converter method that returns an error: the result and the converter after it.\<close>

definition invoke :: "extern \<Rightarrow> call \<Rightarrow> listener \<Rightarrow> error option \<times> listener" where
  "invoke x c l = (convResult x (calls l) c, l\<lparr>calls := calls l @ [c]\<rparr>)"

text \<open>A call of a converter method whose result the listener does not look at.\<close>

definition tell :: "call \<Rightarrow> listener \<Rightarrow> listener" where
  "tell c l = l\<lparr>calls := calls l @ [c]\<rparr>"

text \<open>\<^verbatim>\<open>err = l.converter.M(...); if err != nil { l.err = errors.Wrapf(err, msg, ops); return }\<close>.\<close>

definition invokeOrFail :: "extern \<Rightarrow> call \<Rightarrow> string \<Rightarrow> string list \<Rightarrow> listener \<Rightarrow> listener" where
  "invokeOrFail x c msg ops l =
     (case invoke x c l of
        (Some e, l') \<Rightarrow> setErr (Wrap e msg ops) l'
      | (None, l') \<Rightarrow> l')"

text \<open>The same call in a \<^verbatim>\<open>for\<close> loop over its arguments, left at the first error.\<close>

fun invokeEach :: "extern \<Rightarrow> call list \<Rightarrow> string \<Rightarrow> string list \<Rightarrow> listener \<Rightarrow> listener" where
  "invokeEach x [] msg ops l = l"
| "invokeEach x (c # cs) msg ops l =
     (case invoke x c l of
        (Some e, l') \<Rightarrow> setErr (Wrap e msg ops) l'
      | (None, l') \<Rightarrow> invokeEach x cs msg ops l')"

definition pushErr :: "string \<Rightarrow> error" where
  "pushErr text = Errorf ''no non-push commands allowed after a --push: %s'' [text]"

text \<open>
  The platform option of a statement: expanded, and parsed when it is not empty.
\<close>

definition resolvePlatform :: "extern \<Rightarrow> listener \<Rightarrow> string \<Rightarrow> error + Platform option" where
  "resolvePlatform x l platformStr0 =
     (let platformStr = expandArgs x l platformStr0 False
      in if platformStr = [] then Inr None
         else case parsePlatform x platformStr of
                Inl e \<Rightarrow> Inl (Wrap e ''parse platform %s'' [platformStr])
              | Inr p \<Rightarrow> Inr (Some p))"

text \<open>
  \<^verbatim>\<open>fs.Args()\<close> is a slice of \<^verbatim>\<open>l.stmtWords\<close> (its tail), so a handler that writes
  \<^verbatim>\<open>args[i]\<close> writes the words of the listener: the tail is replaced.
\<close>

definition overwriteTail :: "string list \<Rightarrow> string list \<Rightarrow> string list" where
  "overwriteTail ws new = take (length ws - length new) ws @ new"

definition quote :: char where
  "quote = CHR 0x22"

definition reservedMsg :: string where
  "reservedMsg = ''target name cannot be '' @ [quote] @ ''base'' @ [quote] @ '' or ''
                   @ [quote] @ ''secrets'' @ [quote]"

definition EnterTargetHeader :: "extern \<Rightarrow> string \<Rightarrow> listener \<Rightarrow> listener" where
  "EnterTargetHeader x text l =
     (let l1 = l\<lparr>currentTarget := trimColon text\<rparr>
      in if currentTarget l1 = executeTarget l1 \<and> targetFound l1
         then setErr (Errorf ''target %s is declared twice'' [currentTarget l1]) l1
         else
           let l2 = (if currentTarget l1 = executeTarget l1 then l1\<lparr>targetFound := True\<rparr> else l1)
           in if shouldSkip l2 then l2
              else if currentTarget l2 = ''base'' \<or> currentTarget l2 = ''secrets''
                then setErr (Errorf reservedMsg []) l2
              else invokeOrFail x (From ''+base'' None []) ''apply implicit FROM +base'' [] l2)"

definition EnterStmts :: "listener \<Rightarrow> listener" where
  "EnterStmts l = (if shouldSkip l then l else l\<lparr>pushOnlyAllowed := False\<rparr>)"

definition ExitStmts :: "listener \<Rightarrow> listener" where
  "ExitStmts l =
     (if shouldSkip l then l
      else if withDocker l \<noteq> None then setErr (Errorf ''no matching END found for WITH DOCKER'' []) l
      else l)"

definition EnterStmt :: "listener \<Rightarrow> listener" where
  "EnterStmt l =
     (if shouldSkip l then l
      else l\<lparr>stmtWords := [], envArgKey := [], envArgValue := [], labelKeys := [],
             labelValues := [], execMode := False\<rparr>)"

definition fromFlags :: "(string \<times> flagKind) list" where
  "fromFlags = [(''build-arg'', SliceFlag), (''platform'', StringFlag)]"

definition ExitFromStmt :: "extern \<Rightarrow> string \<Rightarrow> listener \<Rightarrow> listener" where
  "ExitFromStmt x text l =
     (if shouldSkip l then l
      else if pushOnlyAllowed l then setErr (pushErr text) l
      else case parseFlags x fromFlags (stmtWords l) [] of
        Inl e \<Rightarrow> setErr (Wrap e ''invalid FROM arguments %v'' (stmtWords l)) l
      | Inr (vs, args) \<Rightarrow>
          if length args \<noteq> 1 then
            (if length args = 3 \<and> args ! 1 = ''AS''
             then setErr (Errorf ''AS not supported, use earthly targets instead'' []) l
             else setErr (Errorf ''invalid number of arguments for FROM: %s'' (stmtWords l)) l)
          else
            let imageName = expandArgs x l (args ! 0) True
            in (case resolvePlatform x l (stringOpt vs ''platform'') of
                  Inl e \<Rightarrow> setErr e l
                | Inr platform \<Rightarrow>
                    let buildArgs = map (\<lambda>ba. expandArgs x l ba True) (sliceOpt vs ''build-arg'')
                    in invokeOrFail x (From imageName platform buildArgs)
                         ''apply FROM %s'' [imageName] l))"

definition fromDockerfileFlags :: "(string \<times> flagKind) list" where
  "fromDockerfileFlags =
     [(''build-arg'', SliceFlag), (''platform'', StringFlag), (''target'', StringFlag),
      (''f'', StringFlag)]"

text \<open>
  The result of \<^verbatim>\<open>domain.ParseArtifact\<close> is dropped and both branches expand the
  argument the same way, so the path does not depend on it.
\<close>

definition ExitFromDockerfileStmt :: "extern \<Rightarrow> string \<Rightarrow> listener \<Rightarrow> listener" where
  "ExitFromDockerfileStmt x text l =
     (if shouldSkip l then l
      else if pushOnlyAllowed l then setErr (pushErr text) l
      else case parseFlags x fromDockerfileFlags (stmtWords l) [] of
        Inl e \<Rightarrow> setErr (Wrap e ''invalid FROM DOCKERFILE arguments %v'' (stmtWords l)) l
      | Inr (vs, args) \<Rightarrow>
          if length args \<noteq> 1
          then setErr (Errorf ''invalid number of arguments for FROM DOCKERFILE'' []) l
          else
            let path = expandArgs x l (args ! 0) False;
                buildArgs = map (\<lambda>ba. expandArgs x l ba True) (sliceOpt vs ''build-arg'')
            in (case resolvePlatform x l (stringOpt vs ''platform'') of
                  Inl e \<Rightarrow> setErr e l
                | Inr platform \<Rightarrow>
                    let dfPath = expandArgs x l (stringOpt vs ''f'') False;
                        dfTarget = expandArgs x l (stringOpt vs ''target'') False
                    in invokeOrFail x (FromDockerfile path dfPath dfTarget platform buildArgs)
                         ''from dockerfile'' [] l))"

definition copyFlags :: "(string \<times> flagKind) list" where
  "copyFlags =
     [(''from'', StringFlag), (''dir'', BoolFlag), (''chown'', StringFlag),
      (''keep-ts'', BoolFlag), (''keep-own'', BoolFlag), (''if-exists'', BoolFlag),
      (''platform'', StringFlag), (''build-arg'', SliceFlag)]"

text \<open>
  One round of the loop over the sources of COPY: whether the source parses as an
  artifact, and what is written back to \<^verbatim>\<open>srcs[i]\<close>.
\<close>

definition classifySrc :: "extern \<Rightarrow> listener \<Rightarrow> string \<Rightarrow> bool \<times> string" where
  "classifySrc x l src =
     (case parseArtifact x (expandArgs x l src True) of
        Some artifactSrc \<Rightarrow> (True, artifactSrc)
      | None \<Rightarrow> (False, expandArgs x l src False))"

definition ExitCopyStmt :: "extern \<Rightarrow> string \<Rightarrow> listener \<Rightarrow> listener" where
  "ExitCopyStmt x text l =
     (if shouldSkip l then l
      else if pushOnlyAllowed l then setErr (pushErr text) l
      else case parseFlags x copyFlags (stmtWords l) [] of
        Inl e \<Rightarrow> setErr (Wrap e ''invalid COPY arguments %v'' (stmtWords l)) l
      | Inr (vs, args) \<Rightarrow>
          if length args < 2
          then setErr (Errorf ''not enough COPY arguments %v'' (stmtWords l)) l
          else if stringOpt vs ''from'' \<noteq> []
          then setErr (Errorf ''COPY --from not implemented. Use COPY artifacts form instead'' []) l
          else
            let dest = expandArgs x l (last args) False;
                buildArgs = map (\<lambda>ba. expandArgs x l ba True) (sliceOpt vs ''build-arg'');
                chown = expandArgs x l (stringOpt vs ''chown'') False
            in (case resolvePlatform x l (stringOpt vs ''platform'') of
                 Inl e \<Rightarrow> setErr e l
               | Inr platform \<Rightarrow>
                   let cls = map (classifySrc x l) (butlast args);
                       srcs = map snd cls;
                       allClassical = list_all (\<lambda>c. \<not> fst c) cls;
                       allArtifacts = list_all fst cls;
                       l1 = l\<lparr>stmtWords := overwriteTail (stmtWords l) (srcs @ [last args])\<rparr>
                   in if \<not> allClassical \<and> \<not> allArtifacts
                      then setErr (Errorf ''combining artifacts and build context arguments in a single COPY command is not allowed: %v'' srcs) l1
                      else if allArtifacts
                      then invokeEach x
                             (map (\<lambda>src. CopyArtifact src dest platform buildArgs
                                     (boolOpt vs ''dir'') (boolOpt vs ''keep-ts'')
                                     (boolOpt vs ''keep-own'') chown (boolOpt vs ''if-exists'')) srcs)
                             ''copy artifact'' [] l1
                      else if buildArgs \<noteq> []
                      then setErr (Errorf ''build args not supported for non +artifact arguments case %v'' (stmtWords l1)) l1
                      else tell (CopyClassical srcs dest (boolOpt vs ''dir'') (boolOpt vs ''keep-ts'')
                                   (boolOpt vs ''keep-own'') chown) l1))"

definition runFlags :: "(string \<times> flagKind) list" where
  "runFlags =
     [(''push'', BoolFlag), (''privileged'', BoolFlag), (''entrypoint'', BoolFlag),
      (''with-docker'', BoolFlag), (''ssh'', BoolFlag), (''secret'', SliceFlag),
      (''mount'', SliceFlag)]"

definition ExitRunStmt :: "extern \<Rightarrow> string \<Rightarrow> listener \<Rightarrow> listener" where
  "ExitRunStmt x text l =
     (if shouldSkip l then l
      else if length (stmtWords l) < 1 then setErr (Errorf ''not enough arguments for RUN'' []) l
      else case parseFlags x runFlags (stmtWords l) [] of
        Inl e \<Rightarrow> setErr (Wrap e ''invalid RUN arguments %v'' (stmtWords l)) l
      | Inr (vs, args) \<Rightarrow>
          let pushFlag = boolOpt vs ''push'';
              withEntrypoint = boolOpt vs ''entrypoint'';
              withDockerFlag = boolOpt vs ''with-docker'';
              withSSH = boolOpt vs ''ssh'';
              withShell = (\<not> execMode l);
              privileged = (boolOpt vs ''privileged'' \<or> withDockerFlag)
          in if \<not> pushFlag \<and> pushOnlyAllowed l then setErr (pushErr text) l
             else
               let secrets = map (\<lambda>s. expandArgs x l s True) (sliceOpt vs ''secret'');
                   mounts = map (\<lambda>m. expandArgs x l m False) (sliceOpt vs ''mount'')
               in (case withDocker l of
                     None \<Rightarrow>
                       (case invoke x (Run args mounts secrets privileged withEntrypoint
                                         withDockerFlag withShell pushFlag withSSH) l of
                          (Some e, l') \<Rightarrow> setErr (Wrap e ''run'' []) l'
                        | (None, l') \<Rightarrow> if pushFlag then l'\<lparr>pushOnlyAllowed := True\<rparr> else l')
                   | Some wd \<Rightarrow>
                       if pushFlag then setErr (Errorf ''RUN --push not allowed in WITH DOCKER'' []) l
                       else if withDockerRan l
                       then setErr (Errorf ''only one RUN command allowed in WITH DOCKER'' []) l
                       else
                         let wd' = wd\<lparr>Mounts := mounts, Secrets := secrets, WithShell := withShell,
                                      WithEntrypoint := withEntrypoint\<rparr>
                         in invokeOrFail x (WithDockerRun args wd') ''with docker run'' []
                              (l\<lparr>withDockerRan := True, withDocker := Some wd'\<rparr>)))"

definition saveArtifactFlags :: "(string \<times> flagKind) list" where
  "saveArtifactFlags = [(''keep-ts'', BoolFlag), (''keep-own'', BoolFlag), (''if-exists'', BoolFlag)]"

text \<open>\<^verbatim>\<open>strings.Join(ws, " ")\<close>.\<close>

fun joinSpace :: "string list \<Rightarrow> string" where
  "joinSpace [] = []"
| "joinSpace [w] = w"
| "joinSpace (w # ws) = w @ '' '' @ joinSpace ws"

text \<open>The Go slice expression \<^verbatim>\<open>xs[i:j]\<close>.\<close>

definition slice :: "'a list \<Rightarrow> nat \<Rightarrow> nat \<Rightarrow> 'a list" where
  "slice xs i j = take (j - i) (drop i xs)"

text \<open>
  The shape check of SAVE ARTIFACT on one to five positional arguments: the values of
  \<^verbatim>\<open>saveTo\<close> and \<^verbatim>\<open>saveAsLocalTo\<close> before expansion, or \<^term>\<open>None\<close> where the
  handler reports invalid arguments.
\<close>

definition saveArtifactShape :: "string list \<Rightarrow> (string \<times> string) option" where
  "saveArtifactShape args =
     (let n = length args
      in if n \<ge> 4 then
           (if joinSpace (slice args (n - 3) (n - 1)) = ''AS LOCAL''
            then Some (if n = 5 then args ! 1 else ''./'', args ! (n - 1))
            else None)
         else if n = 2 then Some (args ! 1, [])
         else if n = 3 then None
         else Some (''./'', []))"

definition ExitSaveArtifact :: "extern \<Rightarrow> string \<Rightarrow> listener \<Rightarrow> listener" where
  "ExitSaveArtifact x text l =
     (if shouldSkip l then l
      else if pushOnlyAllowed l then setErr (pushErr text) l
      else case parseFlags x saveArtifactFlags (stmtWords l) [] of
        Inl e \<Rightarrow> setErr (Wrap e ''invalid SAVE arguments %v'' (stmtWords l)) l
      | Inr (vs, args) \<Rightarrow>
          let n = length args
          in if n = 0
             then setErr (Errorf ''no arguments provided to the SAVE ARTIFACT command'' []) l
             else if n > 5
             then setErr (Errorf ''too many arguments provided to the SAVE ARTIFACT command: %v'' (stmtWords l)) l
             else
               (case saveArtifactShape args of
                  None \<Rightarrow>
                    setErr (Errorf ''invalid arguments for SAVE ARTIFACT command: %v'' (stmtWords l)) l
                | Some (saveTo0, saveAsLocalTo0) \<Rightarrow>
                    let saveFrom = expandArgs x l (args ! 0) False;
                        saveTo = expandArgs x l saveTo0 False;
                        saveAsLocalTo = expandArgs x l saveAsLocalTo0 False
                    in invokeOrFail x
                         (SaveArtifact saveFrom saveTo saveAsLocalTo (boolOpt vs ''keep-ts'')
                            (boolOpt vs ''keep-own'') (boolOpt vs ''if-exists''))
                         ''apply SAVE ARTIFACT'' [] l))"

definition saveImageFlags :: "(string \<times> flagKind) list" where
  "saveImageFlags =
     [(''push'', BoolFlag), (''cache-hint'', BoolFlag), (''insecure'', BoolFlag),
      (''cache-from'', SliceFlag)]"

definition deprecationNotice :: string where
  "deprecationNotice =
     ''Deprecation: using SAVE IMAGE with no arguments is no longer necessary and can be safely removed''
     @ [CHR 0x0A]"

definition ExitSaveImage :: "extern \<Rightarrow> string \<Rightarrow> listener \<Rightarrow> listener" where
  "ExitSaveImage x text l =
     (if shouldSkip l then l
      else case parseFlags x saveImageFlags (stmtWords l) [] of
        Inl e \<Rightarrow> setErr (Wrap e ''invalid SAVE IMAGE arguments %v'' (stmtWords l)) l
      | Inr (vs, args) \<Rightarrow>
          let pushFlag = boolOpt vs ''push'';
              cacheHint = boolOpt vs ''cache-hint'';
              insecure = boolOpt vs ''insecure'';
              cacheFrom = map (\<lambda>cf. expandArgs x l cf False) (sliceOpt vs ''cache-from'')
          in if \<not> pushFlag \<and> pushOnlyAllowed l then setErr (pushErr text) l
             else if pushFlag \<and> length args = 0
             then setErr (Errorf ''invalid number of arguments for SAVE IMAGE --push: %v'' (stmtWords l)) l
             else
               let imageNames = map (\<lambda>img. expandArgs x l img False) args;
                   l1 = l\<lparr>stmtWords := overwriteTail (stmtWords l) imageNames\<rparr>
               in if length imageNames = 0 \<and> \<not> cacheHint \<and> length cacheFrom = 0
                  then l1\<lparr>stdout := stdout l1 @ [deprecationNotice]\<rparr>
                  else (case invoke x (SaveImage imageNames pushFlag insecure cacheHint cacheFrom) l1 of
                          (Some e, l') \<Rightarrow> setErr (Wrap e ''save image'' []) l'
                        | (None, l') \<Rightarrow> if pushFlag then l'\<lparr>pushOnlyAllowed := True\<rparr> else l'))"

definition buildFlags :: "(string \<times> flagKind) list" where
  "buildFlags = [(''platform'', SliceFlag), (''build-arg'', SliceFlag)]"

text \<open>
  The loop over the platforms of BUILD. It parses the platform string as written: the
  expanded string goes back into the flag's slice, which nothing reads afterwards.
\<close>

fun parsePlatforms :: "extern \<Rightarrow> string list \<Rightarrow> error + Platform list" where
  "parsePlatforms x [] = Inr []"
| "parsePlatforms x (p # ps) =
     (case parsePlatform x p of
        Inl e \<Rightarrow> Inl (Wrap e ''parse platform %s'' [p])
      | Inr pl \<Rightarrow>
          (case parsePlatforms x ps of
             Inl e \<Rightarrow> Inl e
           | Inr pls \<Rightarrow> Inr (pl # pls)))"

definition ExitBuildStmt :: "extern \<Rightarrow> string \<Rightarrow> listener \<Rightarrow> listener" where
  "ExitBuildStmt x text l =
     (if shouldSkip l then l
      else if pushOnlyAllowed l then setErr (pushErr text) l
      else case parseFlags x buildFlags (stmtWords l) [] of
        Inl e \<Rightarrow> setErr (Wrap e ''invalid BUILD arguments %v'' (stmtWords l)) l
      | Inr (vs, args) \<Rightarrow>
          if length args \<noteq> 1
          then setErr (Errorf ''invalid number of arguments for BUILD: %s'' (stmtWords l)) l
          else
            let fullTargetName = expandArgs x l (args ! 0) True
            in (case parsePlatforms x (sliceOpt vs ''platform'') of
                  Inl e \<Rightarrow> setErr e l
                | Inr ps \<Rightarrow>
                    let buildArgs = map (\<lambda>arg. expandArgs x l arg True) (sliceOpt vs ''build-arg'');
                        platformsSlice = (if length ps = 0 then [None] else map Some ps)
                    in invokeEach x (map (\<lambda>platform. Build fullTargetName platform buildArgs) platformsSlice)
                         ''apply BUILD %s'' [fullTargetName] l))"

definition ExitWorkdirStmt :: "extern \<Rightarrow> string \<Rightarrow> listener \<Rightarrow> listener" where
  "ExitWorkdirStmt x text l =
     (if shouldSkip l then l
      else if pushOnlyAllowed l then setErr (pushErr text) l
      else if length (stmtWords l) \<noteq> 1
      then setErr (Errorf ''invalid number of arguments for WORKDIR: %v'' (stmtWords l)) l
      else tell (Workdir (expandArgs x l (stmtWords l ! 0) False)) l)"

definition ExitUserStmt :: "extern \<Rightarrow> string \<Rightarrow> listener \<Rightarrow> listener" where
  "ExitUserStmt x text l =
     (if shouldSkip l then l
      else if pushOnlyAllowed l then setErr (pushErr text) l
      else if length (stmtWords l) \<noteq> 1
      then setErr (Errorf ''invalid number of arguments for USER: %v'' (stmtWords l)) l
      else tell (User (expandArgs x l (stmtWords l ! 0) False)) l)"

text \<open>
  CMD and ENTRYPOINT expand their words in place (the words of the listener) in exec
  mode only.
\<close>

definition ExitCmdStmt :: "extern \<Rightarrow> string \<Rightarrow> listener \<Rightarrow> listener" where
  "ExitCmdStmt x text l =
     (if shouldSkip l then l
      else if pushOnlyAllowed l then setErr (pushErr text) l
      else
        let withShell = (\<not> execMode l);
            cmdArgs = (if \<not> withShell then map (\<lambda>arg. expandArgs x l arg False) (stmtWords l)
                       else stmtWords l)
        in tell (Cmd cmdArgs withShell) (l\<lparr>stmtWords := cmdArgs\<rparr>))"

definition ExitEntrypointStmt :: "extern \<Rightarrow> string \<Rightarrow> listener \<Rightarrow> listener" where
  "ExitEntrypointStmt x text l =
     (if shouldSkip l then l
      else if pushOnlyAllowed l then setErr (pushErr text) l
      else
        let withShell = (\<not> execMode l);
            entArgs = (if \<not> withShell then map (\<lambda>arg. expandArgs x l arg False) (stmtWords l)
                       else stmtWords l)
        in tell (Entrypoint entArgs withShell) (l\<lparr>stmtWords := entArgs\<rparr>))"

definition ExitExposeStmt :: "extern \<Rightarrow> string \<Rightarrow> listener \<Rightarrow> listener" where
  "ExitExposeStmt x text l =
     (if shouldSkip l then l
      else if pushOnlyAllowed l then setErr (pushErr text) l
      else if length (stmtWords l) = 0
      then setErr (Errorf ''no arguments provided to the EXPOSE command'' []) l
      else
        let ports = map (\<lambda>port. expandArgs x l port False) (stmtWords l)
        in tell (Expose ports) (l\<lparr>stmtWords := ports\<rparr>))"

definition ExitVolumeStmt :: "extern \<Rightarrow> string \<Rightarrow> listener \<Rightarrow> listener" where
  "ExitVolumeStmt x text l =
     (if shouldSkip l then l
      else if pushOnlyAllowed l then setErr (pushErr text) l
      else if length (stmtWords l) = 0
      then setErr (Errorf ''no arguments provided to the VOLUME command'' []) l
      else
        let volumes = map (\<lambda>volume. expandArgs x l volume False) (stmtWords l)
        in tell (Volume volumes) (l\<lparr>stmtWords := volumes\<rparr>))"

definition ExitEnvStmt :: "extern \<Rightarrow> string \<Rightarrow> listener \<Rightarrow> listener" where
  "ExitEnvStmt x text l =
     (if shouldSkip l then l
      else if pushOnlyAllowed l then setErr (pushErr text) l
      else tell (Env (envArgKey l) (expandArgs x l (envArgValue l) False)) l)"

definition ExitArgStmt :: "extern \<Rightarrow> string \<Rightarrow> listener \<Rightarrow> listener" where
  "ExitArgStmt x text l =
     (if shouldSkip l then l
      else if pushOnlyAllowed l then setErr (pushErr text) l
      else tell (Arg (envArgKey l) (expandArgs x l (envArgValue l) True)
                   (currentTarget l = ''base'')) l)"

text \<open>The label map, filled in the order of the keys: a later equal key replaces the value.\<close>

definition labelMap :: "extern \<Rightarrow> listener \<Rightarrow> (string \<times> string) list" where
  "labelMap x l =
     foldl (\<lambda>labels (k, v). AList.update (expandArgs x l k False) (expandArgs x l v False) labels)
       [] (zip (labelKeys l) (labelValues l))"

definition ExitLabelStmt :: "extern \<Rightarrow> string \<Rightarrow> listener \<Rightarrow> listener" where
  "ExitLabelStmt x text l =
     (if shouldSkip l then l
      else if pushOnlyAllowed l then setErr (pushErr text) l
      else if length (labelKeys l) = 0
      then setErr (Errorf ''no labels provided in LABEL command: %s'' [text]) l
      else if length (labelKeys l) \<noteq> length (labelValues l)
      then setErr (Errorf ''label keys and values do not match: %s'' [text]) l
      else tell (Label (labelMap x l)) l)"

definition gitCloneFlags :: "(string \<times> flagKind) list" where
  "gitCloneFlags = [(''branch'', StringFlag), (''keep-ts'', BoolFlag)]"

definition ExitGitCloneStmt :: "extern \<Rightarrow> string \<Rightarrow> listener \<Rightarrow> listener" where
  "ExitGitCloneStmt x text l =
     (if shouldSkip l then l
      else if pushOnlyAllowed l then setErr (pushErr text) l
      else case parseFlags x gitCloneFlags (stmtWords l) [] of
        Inl e \<Rightarrow> setErr (Wrap e ''invalid GIT CLONE arguments %v'' (stmtWords l)) l
      | Inr (vs, args) \<Rightarrow>
          if length args \<noteq> 2
          then setErr (Errorf ''invalid number of arguments for GIT CLONE: %s'' (stmtWords l)) l
          else
            let gitURL = expandArgs x l (args ! 0) False;
                gitCloneDest = expandArgs x l (args ! 1) False;
                branch = expandArgs x l (stringOpt vs ''branch'') False
            in invokeOrFail x (GitClone gitURL branch gitCloneDest (boolOpt vs ''keep-ts''))
                 ''git clone'' [] l)"

definition ExitDockerLoadStmt :: "listener \<Rightarrow> listener" where
  "ExitDockerLoadStmt l =
     (if shouldSkip l then l
      else setErr (Errorf ''DOCKER LOAD is obsolete. Please use WITH DOCKER --load'' []) l)"

definition ExitDockerPullStmt :: "listener \<Rightarrow> listener" where
  "ExitDockerPullStmt l =
     (if shouldSkip l then l
      else setErr (Errorf ''DOCKER PULL is obsolete. Please use WITH DOCKER --pull'' []) l)"

definition healthcheckFlags :: "(string \<times> flagKind) list" where
  "healthcheckFlags =
     [(''interval'', DurationFlag), (''timeout'', DurationFlag),
      (''start-period'', DurationFlag), (''retries'', IntFlag)]"

text \<open>Durations are nanoseconds, as \<^verbatim>\<open>time.Duration\<close> counts them.\<close>

definition second :: int where
  "second = 1000000000"

definition ExitHealthcheckStmt :: "extern \<Rightarrow> string \<Rightarrow> listener \<Rightarrow> listener" where
  "ExitHealthcheckStmt x text l =
     (if shouldSkip l then l
      else if pushOnlyAllowed l then setErr (pushErr text) l
      else case parseFlags x healthcheckFlags (stmtWords l) [] of
        Inl e \<Rightarrow> setErr (Wrap e ''invalid HEALTHCHECK arguments %v'' (stmtWords l)) l
      | Inr (vs, args) \<Rightarrow>
          let interval = intOpt vs ''interval'' (30 * second);
              timeout = intOpt vs ''timeout'' (30 * second);
              startPeriod = intOpt vs ''start-period'' 0;
              retries = intOpt vs ''retries'' 3
          in if length args = 0
             then setErr (Errorf ''invalid number of arguments for HEALTHCHECK: %s'' (stmtWords l)) l
             else if args ! 0 = ''NONE'' then
               (if length args \<noteq> 1
                then setErr (Errorf ''invalid arguments for HEALTHCHECK: %s'' (stmtWords l)) l
                else tell (Healthcheck True [] interval timeout startPeriod retries) l)
             else if args ! 0 = ''CMD'' then
               (if length args = 1
                then setErr (Errorf ''invalid number of arguments for HEALTHCHECK CMD: %s'' (stmtWords l)) l
                else
                  let cmdArgs = map (\<lambda>arg. expandArgs x l arg False) (drop 1 args)
                  in tell (Healthcheck False cmdArgs interval timeout startPeriod retries)
                       (l\<lparr>stmtWords := overwriteTail (stmtWords l) cmdArgs\<rparr>))
             else if take 1 (args ! 0) = ''[''
             then setErr (Errorf ''exec form not yet supported for HEALTHCHECK CMD: %s'' (stmtWords l)) l
             else setErr (Errorf ''invalid arguments for HEALTHCHECK: %s'' (stmtWords l)) l)"

definition withDockerFlags :: "(string \<times> flagKind) list" where
  "withDockerFlags =
     [(''compose'', SliceFlag), (''service'', SliceFlag), (''load'', SliceFlag),
      (''platform'', StringFlag), (''build-arg'', SliceFlag), (''pull'', SliceFlag)]"

definition ExitWithDockerStmt :: "extern \<Rightarrow> string \<Rightarrow> listener \<Rightarrow> listener" where
  "ExitWithDockerStmt x text l =
     (if shouldSkip l then l
      else if pushOnlyAllowed l then setErr (pushErr text) l
      else if withDocker l \<noteq> None
      then setErr (Errorf ''cannot use WITH DOCKER within WITH DOCKER'' []) l
      else case parseFlags x withDockerFlags (stmtWords l) [] of
        Inl e \<Rightarrow> setErr (Wrap e ''invalid WITH DOCKER arguments %v'' (stmtWords l)) l
      | Inr (vs, args) \<Rightarrow>
          if length args \<noteq> 0 then setErr (Errorf ''invalid WITH DOCKER arguments %v'' args) l
          else
            (case resolvePlatform x l (stringOpt vs ''platform'') of
               Inl e \<Rightarrow> setErr e l
             | Inr platform \<Rightarrow>
                 let composeFiles = map (\<lambda>cf. expandArgs x l cf False) (sliceOpt vs ''compose'');
                     composeServices = map (\<lambda>cs. expandArgs x l cs False) (sliceOpt vs ''service'');
                     loads = map (\<lambda>load. expandArgs x l load True) (sliceOpt vs ''load'');
                     buildArgs = map (\<lambda>ba. expandArgs x l ba True) (sliceOpt vs ''build-arg'');
                     pulls = map (\<lambda>p. expandArgs x l p False) (sliceOpt vs ''pull'')
                 in l\<lparr>withDocker := Some
                        \<lparr> Mounts = [], Secrets = [], WithShell = False, WithEntrypoint = False,
                          Pulls = map (\<lambda>pullStr. DockerPullOpt pullStr platform) pulls,
                          Loads = map (\<lambda>loadStr. DockerLoadOpt (snd (parseLoad loadStr))
                                         (fst (parseLoad loadStr)) platform buildArgs) loads,
                          ComposeFiles = composeFiles, ComposeServices = composeServices \<rparr>\<rparr>))"

definition ExitEndStmt :: "string \<Rightarrow> listener \<Rightarrow> listener" where
  "ExitEndStmt text l =
     (if shouldSkip l then l
      else if length (stmtWords l) \<noteq> 0
      then setErr (Errorf ''END does not take any arguments: %s'' [text]) l
      else if withDocker l = None
      then setErr (Errorf ''END can only be used to end a WITH DOCKER clause'' []) l
      else if \<not> withDockerRan l
      then setErr (Errorf ''no RUN command found in WITH DOCKER'' []) l
      else l\<lparr>withDocker := None, withDockerRan := False\<rparr>)"

definition ExitAddStmt :: "listener \<Rightarrow> listener" where
  "ExitAddStmt l =
     (if shouldSkip l then l else setErr (Errorf ''command ADD not yet supported'' []) l)"

definition ExitStopsignalStmt :: "listener \<Rightarrow> listener" where
  "ExitStopsignalStmt l =
     (if shouldSkip l then l else setErr (Errorf ''command STOPSIGNAL not yet supported'' []) l)"

definition ExitOnbuildStmt :: "listener \<Rightarrow> listener" where
  "ExitOnbuildStmt l =
     (if shouldSkip l then l else setErr (Errorf ''command ONBUILD not supported'' []) l)"

definition ExitShellStmt :: "listener \<Rightarrow> listener" where
  "ExitShellStmt l =
     (if shouldSkip l then l else setErr (Errorf ''command SHELL not yet supported'' []) l)"

definition ExitGenericCommandStmt :: "string \<Rightarrow> listener \<Rightarrow> listener" where
  "ExitGenericCommandStmt text l =
     (if shouldSkip l then l else setErr (Errorf ''invalid command %s'' [text]) l)"

definition EnterEnvArgKey :: "string \<Rightarrow> listener \<Rightarrow> listener" where
  "EnterEnvArgKey text l =
     (if shouldSkip l then l
      else
        let l1 = l\<lparr>envArgKey := text\<rparr>
        in (case checkEnvVarName (envArgKey l1) of
              Some e \<Rightarrow> setErr e l1
            | None \<Rightarrow> l1))"

definition EnterEnvArgValue :: "string \<Rightarrow> listener \<Rightarrow> listener" where
  "EnterEnvArgValue text l = (if shouldSkip l then l else l\<lparr>envArgValue := text\<rparr>)"

definition EnterLabelKey :: "string \<Rightarrow> listener \<Rightarrow> listener" where
  "EnterLabelKey text l = (if shouldSkip l then l else l\<lparr>labelKeys := labelKeys l @ [text]\<rparr>)"

definition EnterLabelValue :: "string \<Rightarrow> listener \<Rightarrow> listener" where
  "EnterLabelValue text l = (if shouldSkip l then l else l\<lparr>labelValues := labelValues l @ [text]\<rparr>)"

definition ExitStmtWordsMaybeJSON :: "extern \<Rightarrow> string \<Rightarrow> listener \<Rightarrow> listener" where
  "ExitStmtWordsMaybeJSON x text l =
     (if shouldSkip l then l
      else case jsonWords x text of
        Some words \<Rightarrow> l\<lparr>stmtWords := words, execMode := True\<rparr>
      | None \<Rightarrow> l)"

definition EnterStmtWord :: "string \<Rightarrow> listener \<Rightarrow> listener" where
  "EnterStmtWord text l =
     (if shouldSkip l then l else l\<lparr>stmtWords := stmtWords l @ [replaceEscape text]\<rparr>)"

subsection \<open>The walk\<close>

text \<open>
  The callbacks the listener overrides, each with the text of its parse-tree node
  (\<^verbatim>\<open>c.GetText()\<close>) where the handler reads it.
\<close>

datatype event =
    TargetHeaderEntered string
  | StmtsEntered
  | StmtsExited
  | StmtEntered
  | FromStmtExited string
  | FromDockerfileStmtExited string
  | CopyStmtExited string
  | RunStmtExited string
  | SaveArtifactExited string
  | SaveImageExited string
  | BuildStmtExited string
  | WorkdirStmtExited string
  | UserStmtExited string
  | CmdStmtExited string
  | EntrypointStmtExited string
  | ExposeStmtExited string
  | VolumeStmtExited string
  | EnvStmtExited string
  | ArgStmtExited string
  | LabelStmtExited string
  | GitCloneStmtExited string
  | DockerLoadStmtExited
  | DockerPullStmtExited
  | HealthcheckStmtExited string
  | WithDockerStmtExited string
  | EndStmtExited string
  | AddStmtExited
  | StopsignalStmtExited
  | OnbuildStmtExited
  | ShellStmtExited
  | GenericCommandStmtExited string
  | EnvArgKeyEntered string
  | EnvArgValueEntered string
  | LabelKeyEntered string
  | LabelValueEntered string
  | StmtWordsMaybeJSONExited string
  | StmtWordEntered string

fun callback :: "extern \<Rightarrow> event \<Rightarrow> listener \<Rightarrow> listener" where
  "callback x (TargetHeaderEntered t) l = EnterTargetHeader x t l"
| "callback x StmtsEntered l = EnterStmts l"
| "callback x StmtsExited l = ExitStmts l"
| "callback x StmtEntered l = EnterStmt l"
| "callback x (FromStmtExited t) l = ExitFromStmt x t l"
| "callback x (FromDockerfileStmtExited t) l = ExitFromDockerfileStmt x t l"
| "callback x (CopyStmtExited t) l = ExitCopyStmt x t l"
| "callback x (RunStmtExited t) l = ExitRunStmt x t l"
| "callback x (SaveArtifactExited t) l = ExitSaveArtifact x t l"
| "callback x (SaveImageExited t) l = ExitSaveImage x t l"
| "callback x (BuildStmtExited t) l = ExitBuildStmt x t l"
| "callback x (WorkdirStmtExited t) l = ExitWorkdirStmt x t l"
| "callback x (UserStmtExited t) l = ExitUserStmt x t l"
| "callback x (CmdStmtExited t) l = ExitCmdStmt x t l"
| "callback x (EntrypointStmtExited t) l = ExitEntrypointStmt x t l"
| "callback x (ExposeStmtExited t) l = ExitExposeStmt x t l"
| "callback x (VolumeStmtExited t) l = ExitVolumeStmt x t l"
| "callback x (EnvStmtExited t) l = ExitEnvStmt x t l"
| "callback x (ArgStmtExited t) l = ExitArgStmt x t l"
| "callback x (LabelStmtExited t) l = ExitLabelStmt x t l"
| "callback x (GitCloneStmtExited t) l = ExitGitCloneStmt x t l"
| "callback x DockerLoadStmtExited l = ExitDockerLoadStmt l"
| "callback x DockerPullStmtExited l = ExitDockerPullStmt l"
| "callback x (HealthcheckStmtExited t) l = ExitHealthcheckStmt x t l"
| "callback x (WithDockerStmtExited t) l = ExitWithDockerStmt x t l"
| "callback x (EndStmtExited t) l = ExitEndStmt t l"
| "callback x AddStmtExited l = ExitAddStmt l"
| "callback x StopsignalStmtExited l = ExitStopsignalStmt l"
| "callback x OnbuildStmtExited l = ExitOnbuildStmt l"
| "callback x ShellStmtExited l = ExitShellStmt l"
| "callback x (GenericCommandStmtExited t) l = ExitGenericCommandStmt t l"
| "callback x (EnvArgKeyEntered t) l = EnterEnvArgKey t l"
| "callback x (EnvArgValueEntered t) l = EnterEnvArgValue t l"
| "callback x (LabelKeyEntered t) l = EnterLabelKey t l"
| "callback x (LabelValueEntered t) l = EnterLabelValue t l"
| "callback x (StmtWordsMaybeJSONExited t) l = ExitStmtWordsMaybeJSON x t l"
| "callback x (StmtWordEntered t) l = EnterStmtWord t l"

text \<open>The walk driver calls the callbacks one after the other, in document order.\<close>

fun walk :: "extern \<Rightarrow> event list \<Rightarrow> listener \<Rightarrow> listener" where
  "walk x [] l = l"
| "walk x (ev # evs) l = walk x evs (callback x ev l)"

section \<open>Properties of the walk\<close>

subsection \<open>Vocabulary of the statements\<close>

text \<open>The target header is the one callback that is not guarded by \<^const>\<open>shouldSkip\<close> first.\<close>

fun isHeader :: "event \<Rightarrow> bool" where
  "isHeader (TargetHeaderEntered t) = True"
| "isHeader _ = False"

text \<open>
  The callbacks of one statement with plain words: the statement is entered, each word
  is entered, the statement's own callback exits. \<open>entered\<close> is the listener the exit
  callback then finds, when the statement is not skipped.
\<close>

definition stmt :: "string list \<Rightarrow> event \<Rightarrow> event list" where
  "stmt ws ex = StmtEntered # map StmtWordEntered ws @ [ex]"

definition entered :: "string list \<Rightarrow> listener \<Rightarrow> listener" where
  "entered ws l = l\<lparr>envArgKey := [], envArgValue := [], labelKeys := [], labelValues := [],
                     execMode := False, stmtWords := map replaceEscape ws\<rparr>"

text \<open>
  What every callback keeps: the requested target, the found flag once it is set, and
  the calls already made.
\<close>

definition kept :: "listener \<Rightarrow> listener \<Rightarrow> bool" where
  "kept l l' = (executeTarget l' = executeTarget l \<and> (targetFound l \<longrightarrow> targetFound l')
      \<and> prefix (calls l) (calls l'))"

text \<open>The listener before the header of the requested target has been seen.\<close>

definition quiet :: "listener \<Rightarrow> bool" where
  "quiet l = (calls l = [] \<and> err l = None \<and> \<not> targetFound l \<and> currentTarget l \<noteq> executeTarget l)"

text \<open>Either no call has been made and none can be, or the first call is the implicit FROM.\<close>

definition baseFirst :: "listener \<Rightarrow> bool" where
  "baseFirst l = ((calls l = [] \<and> shouldSkip l \<and> (targetFound l \<longrightarrow> err l \<noteq> None))
                  \<or> (calls l \<noteq> [] \<and> hd (calls l) = From ''+base'' None []))"





text \<open>
  A well-formed opener: the words of a WITH DOCKER whose options decode, leave no
  positional argument and name no platform or one that parses. A well-formed inner
  RUN: at least one word, options that decode, the push option unset.
\<close>

definition opensBlock :: "extern \<Rightarrow> string list \<Rightarrow> listener \<Rightarrow> bool" where
  "opensBlock x ws l =
     (case parseFlags x withDockerFlags (map replaceEscape ws) [] of
        Inl e \<Rightarrow> False
      | Inr (vs, args) \<Rightarrow>
          args = [] \<and> (case resolvePlatform x l (stringOpt vs ''platform'') of
                         Inl e \<Rightarrow> False
                       | Inr p \<Rightarrow> True))"

definition plainRun :: "extern \<Rightarrow> string list \<Rightarrow> bool" where
  "plainRun x ws =
     (ws \<noteq> [] \<and> (case parseFlags x runFlags (map replaceEscape ws) [] of
                    Inl e \<Rightarrow> False
                  | Inr (vs, args) \<Rightarrow> \<not> boolOpt vs ''push''))"

text \<open>
  The positional shapes of SAVE ARTIFACT in the words of the specification: one or two
  arguments, or four or five of which the two before the last are AS and LOCAL.
\<close>

definition acceptedShape :: "string list \<Rightarrow> bool" where
  "acceptedShape args =
     (length args = 1 \<or> length args = 2
      \<or> ((length args = 4 \<or> length args = 5)
          \<and> args ! (length args - 3) = ''AS'' \<and> args ! (length args - 2) = ''LOCAL''))"

subsection \<open>Concrete collaborators and inputs\<close>

text \<open>
  A converter that accepts every call and has no variable to expand, with library
  parsers that accept nothing.
\<close>

definition plainExtern :: extern where
  "plainExtern =
     \<lparr> convResult = (\<lambda>_ _. None), convExpandArgs = (\<lambda>_ s. s), parseArtifact = (\<lambda>_. None),
       parsePlatform = (\<lambda>_. Inl (External ''unknown platform'')), jsonWords = (\<lambda>_. None),
       parseDuration = (\<lambda>_. None), parseInt = (\<lambda>_. None) \<rparr>"

text \<open>The listener for target \<open>a\<close> inside the statements of \<open>a\<close>, and inside those of \<open>b\<close>.\<close>

definition inTarget :: listener where
  "inTarget = walk plainExtern [TargetHeaderEntered ''a:'', StmtsEntered] (newListener ''a'')"

definition otherTarget :: listener where
  "otherTarget = walk plainExtern [TargetHeaderEntered ''b:'', StmtsEntered] (newListener ''a'')"


text \<open>
  Target \<open>a\<close> with \<^verbatim>\<open>ADD x y\<close>, followed by a second header \<open>a:\<close>.
\<close>

definition duplicateAfterError :: "event list" where
  "duplicateAfterError =
     [TargetHeaderEntered ''a:'', StmtsEntered] @ stmt [''x'', ''y''] AddStmtExited
     @ [StmtsExited, TargetHeaderEntered ''a:'']"

text \<open>Target \<open>a\<close> with the one statement \<^verbatim>\<open>RUN --privileged\<close>.\<close>

definition runOnlyOptions :: "event list" where
  "runOnlyOptions =
     [TargetHeaderEntered ''a:'', StmtsEntered]
     @ stmt [''--privileged''] (RunStmtExited ''RUN --privileged'') @ [StmtsExited]"


text \<open>A file whose first target is named \<open>base\<close>, then target \<open>a\<close> with \<^verbatim>\<open>WORKDIR /x\<close>.\<close>

definition baseDeclared :: "event list" where
  "baseDeclared =
     [TargetHeaderEntered ''base:'', StmtsEntered]
     @ stmt [''alpine''] (FromStmtExited ''FROM alpine'')
     @ [StmtsExited, TargetHeaderEntered ''a:'', StmtsEntered]
     @ stmt [''/x''] (WorkdirStmtExited ''WORKDIR /x'') @ [StmtsExited]"

text \<open>The statements before the first header, which belong to the base target.\<close>

definition baseSection :: "event list" where
  "baseSection = StmtsEntered # stmt [''alpine''] (FromStmtExited ''FROM alpine'') @ [StmtsExited]"

subsection \<open>What the callbacks keep\<close>

lemmas handler_defs =
  EnterStmts_def ExitStmts_def EnterStmt_def ExitFromStmt_def ExitFromDockerfileStmt_def
  ExitCopyStmt_def ExitRunStmt_def ExitSaveArtifact_def ExitSaveImage_def ExitBuildStmt_def
  ExitWorkdirStmt_def ExitUserStmt_def ExitCmdStmt_def ExitEntrypointStmt_def
  ExitExposeStmt_def ExitVolumeStmt_def ExitEnvStmt_def ExitArgStmt_def ExitLabelStmt_def
  ExitGitCloneStmt_def ExitDockerLoadStmt_def ExitDockerPullStmt_def ExitHealthcheckStmt_def
  ExitWithDockerStmt_def ExitEndStmt_def ExitAddStmt_def ExitStopsignalStmt_def
  ExitOnbuildStmt_def ExitShellStmt_def ExitGenericCommandStmt_def EnterEnvArgKey_def
  EnterEnvArgValue_def EnterLabelKey_def EnterLabelValue_def ExitStmtWordsMaybeJSON_def
  EnterStmtWord_def

lemma skipped_callback: "shouldSkip l \<Longrightarrow> \<not> isHeader ev \<Longrightarrow> callback x ev l = l"
  by (cases ev) (simp_all add: handler_defs)

lemma skipped_events: "shouldSkip l \<Longrightarrow> \<forall>ev\<in>set evs. \<not> isHeader ev \<Longrightarrow> walk x evs l = l"
  by (induction evs) (simp_all add: skipped_callback)

lemma walk_append: "walk x (as @ bs) l = walk x bs (walk x as l)"
  by (induction as arbitrary: l) simp_all

lemma kept_refl [simp]: "kept l l"
  by (simp add: kept_def)

lemma kept_setErr [simp]: "kept l (setErr e l') = kept l l'"
  by (simp add: kept_def setErr_def)

lemma kept_tell [simp]: "kept l l' \<Longrightarrow> kept l (tell c l')"
  by (auto simp add: kept_def tell_def)

lemma kept_invokeOrFail [simp]: "kept l l' \<Longrightarrow> kept l (invokeOrFail x c m ops l')"
  by (auto simp add: kept_def invokeOrFail_def invoke_def setErr_def split: option.splits)

lemma kept_invokeEach [simp]: "kept l l' \<Longrightarrow> kept l (invokeEach x cs m ops l')"
proof (induction cs arbitrary: l')
  case Nil
  then show ?case by simp
next
  case (Cons c cs)
  have "kept l (l'\<lparr>calls := calls l' @ [c]\<rparr>)"
    using Cons.prems by (auto simp add: kept_def)
  with Cons.IH show ?case
    by (simp add: invoke_def split: option.splits)
qed

lemma kept_update [simp]:
  "kept l (l'\<lparr>stmtWords := a\<rparr>) = kept l l'"
  "kept l (l'\<lparr>pushOnlyAllowed := b\<rparr>) = kept l l'"
  "kept l (l'\<lparr>withDocker := c\<rparr>) = kept l l'"
  "kept l (l'\<lparr>withDockerRan := d\<rparr>) = kept l l'"
  "kept l (l'\<lparr>stdout := e\<rparr>) = kept l l'"
  "kept l (l'\<lparr>envArgKey := f\<rparr>) = kept l l'"
  "kept l (l'\<lparr>envArgValue := f\<rparr>) = kept l l'"
  "kept l (l'\<lparr>labelKeys := a\<rparr>) = kept l l'"
  "kept l (l'\<lparr>labelValues := a\<rparr>) = kept l l'"
  "kept l (l'\<lparr>execMode := b\<rparr>) = kept l l'"
  "kept l (l'\<lparr>currentTarget := f\<rparr>) = kept l l'"
  by (simp_all add: kept_def)

lemma kept_callback: "kept l (callback x ev l)"
proof (cases ev)
  case (TargetHeaderEntered t)
  then show ?thesis
    by (auto simp add: EnterTargetHeader_def Let_def kept_def setErr_def invokeOrFail_def
          invoke_def split: option.splits)
next
  case (RunStmtExited t)
  then show ?thesis
    by (simp add: ExitRunStmt_def Let_def split: sum.splits prod.splits option.splits)
       (auto simp: invoke_def kept_def)
next
  case (SaveImageExited t)
  then show ?thesis
    by (simp add: ExitSaveImage_def Let_def split: sum.splits prod.splits option.splits)
       (auto simp: invoke_def kept_def)
qed (simp_all add: handler_defs Let_def split: sum.splits prod.splits option.splits)

lemma kept_trans: "kept a b \<Longrightarrow> kept b c \<Longrightarrow> kept a c"
  by (auto simp add: kept_def)

lemma kept_walk: "kept l (walk x evs l)"
proof (induction evs arbitrary: l)
  case Nil
  then show ?case by simp
next
  case (Cons ev evs)
  show ?case
    using kept_trans [OF kept_callback Cons.IH] by simp
qed

lemma words_walk:
  "\<not> shouldSkip l \<Longrightarrow>
     walk x (map StmtWordEntered ws) l = l\<lparr>stmtWords := stmtWords l @ map replaceEscape ws\<rparr>"
proof (induction ws arbitrary: l)
  case Nil
  then show ?case by simp
next
  case (Cons w ws)
  let ?l = "l\<lparr>stmtWords := stmtWords l @ [replaceEscape w]\<rparr>"
  have "\<not> shouldSkip ?l"
    using Cons.prems by (simp add: shouldSkip_def)
  from Cons.IH [OF this] Cons.prems show ?case
    by (simp add: EnterStmtWord_def)
qed

lemma stmt_walk:
  assumes "\<not> shouldSkip l"
  shows "walk x (stmt ws ex) l = callback x ex (entered ws l)"
proof -
  let ?l = "EnterStmt l"
  have "\<not> shouldSkip ?l"
    using assms by (simp add: EnterStmt_def shouldSkip_def)
  from words_walk [OF this] assms show ?thesis
    by (simp add: stmt_def walk_append EnterStmt_def entered_def)
qed

lemma entered_fields [simp]:
  "shouldSkip (entered ws l) = shouldSkip l"
  "withDocker (entered ws l) = withDocker l"
  "withDockerRan (entered ws l) = withDockerRan l"
  "pushOnlyAllowed (entered ws l) = pushOnlyAllowed l"
  "calls (entered ws l) = calls l"
  "err (entered ws l) = err l"
  "stmtWords (entered ws l) = map replaceEscape ws"
  by (simp_all add: entered_def shouldSkip_def)


subsection \<open>The latched error\<close>

text \<open>
  A latched error survives every callback except a header that names the requested
  target again: \<^const>\<open>EnterTargetHeader\<close> assigns the declared-twice error before it
  looks at \<^const>\<open>shouldSkip\<close>.
\<close>

lemma latched_error_kept:
  assumes "err l = Some e"
    and "\<forall>t. ev = TargetHeaderEntered t \<longrightarrow> \<not> (trimColon t = executeTarget l \<and> targetFound l)"
  shows "err (callback x ev l) = Some e"
proof (cases "isHeader ev")
  case False
  have "shouldSkip l"
    using assms(1) by (simp add: shouldSkip_def)
  then show ?thesis
    using False assms(1) by (simp add: skipped_callback)
next
  case True
  then obtain t where ev: "ev = TargetHeaderEntered t"
    by (cases ev) simp_all
  then have "\<not> (trimColon t = executeTarget l \<and> targetFound l)"
    using assms(2) by simp
  then show ?thesis
    using assms(1) unfolding ev
    by (auto simp add: EnterTargetHeader_def Let_def shouldSkip_def)
qed

text \<open>
  C1. The claim is that an error, once latched, is never replaced, not even by a
  duplicate declaration of the requested target. On the walk \<^const>\<open>duplicateAfterError\<close>
  the ADD statement latches its error, and the second header \<open>a:\<close> replaces it: the
  walk reports the declared-twice error, not the first one.
\<close>

theorem duplicate_header_replaces_latched_error:
  "err (walk plainExtern (butlast duplicateAfterError) (newListener ''a''))
     = Some (Errorf ''command ADD not yet supported'' [])
   \<and> Err (walk plainExtern duplicateAfterError (newListener ''a''))
     = Some (Errorf ''target %s is declared twice'' [''a''])"
  by code_simp

subsection \<open>Skipped statements\<close>

text \<open>
  C2. While the current target is not the requested one, or an error is latched, every
  callback other than a target header leaves the listener as it is: no call reaches the
  converter and no error is set, whatever the statements are.
\<close>

theorem skipped_statements_have_no_effect:
  assumes "shouldSkip l" and "\<forall>ev\<in>set evs. \<not> isHeader ev"
  shows "walk x evs l = l \<and> calls (walk x evs l) = calls l \<and> err (walk x evs l) = err l"
  using skipped_events [OF assms] by simp

theorem skipped_statements_have_no_effect_witness:
  "walk plainExtern (stmt [''x'', ''y''] AddStmtExited @ stmt [] (RunStmtExited ''RUN'')) otherTarget
     = otherTarget
   \<and> calls (walk plainExtern (stmt [''x'', ''y''] AddStmtExited @ stmt [] (RunStmtExited ''RUN''))
        otherTarget) = calls otherTarget
   \<and> err (walk plainExtern (stmt [''x'', ''y''] AddStmtExited @ stmt [] (RunStmtExited ''RUN''))
        otherTarget) = err otherTarget"
proof -
  have s: "shouldSkip otherTarget"
    by code_simp
  have h: "\<forall>ev\<in>set (stmt [''x'', ''y''] AddStmtExited @ stmt [] (RunStmtExited ''RUN'')). \<not> isHeader ev"
    by (simp add: stmt_def)
  show ?thesis
    by (rule skipped_statements_have_no_effect [OF s h])
qed

subsection \<open>Push-only mode\<close>








subsection \<open>Reserved target names\<close>

text \<open>
  C4, as the claim states it, fails: when the requested target is \<open>a\<close>, a header
  \<open>base:\<close> sets no error, and the whole walk of \<^const>\<open>baseDeclared\<close> succeeds.
\<close>

theorem reserved_header_not_selected_counterexample:
  "err (callback plainExtern (TargetHeaderEntered ''base:'') (newListener ''a'')) = None
   \<and> err (callback plainExtern (TargetHeaderEntered ''secrets:'') (newListener ''a'')) = None
   \<and> Err (walk plainExtern baseDeclared (newListener ''a'')) = None"
  by code_simp

text \<open>
  C4, amended. A header named base or secrets makes no call and leaves the listener
  skipping, so no statement under it is processed. It fails on the header only when
  it names the requested target: with the reserved-name error when that target was
  not found before and no error is latched, with the declared-twice error when it
  was found before. When the requested target has another name the header only sets
  the current target.
\<close>

theorem reserved_header_only_for_requested_target:
  assumes "trimColon t = ''base'' \<or> trimColon t = ''secrets''"
  shows "shouldSkip (callback x (TargetHeaderEntered t) l)
       \<and> calls (callback x (TargetHeaderEntered t) l) = calls l
       \<and> (executeTarget l = trimColon t \<and> \<not> targetFound l \<and> err l = None \<longrightarrow>
            err (callback x (TargetHeaderEntered t) l) = Some (Errorf reservedMsg []))
       \<and> (executeTarget l = trimColon t \<and> targetFound l \<longrightarrow>
            err (callback x (TargetHeaderEntered t) l)
              = Some (Errorf ''target %s is declared twice'' [trimColon t]))
       \<and> (executeTarget l \<noteq> trimColon t \<longrightarrow>
            callback x (TargetHeaderEntered t) l = l\<lparr>currentTarget := trimColon t\<rparr>)"
  using assms
  by (auto simp add: EnterTargetHeader_def Let_def shouldSkip_def setErr_def)

theorem reserved_header_only_for_requested_target_witness:
  "shouldSkip (callback plainExtern (TargetHeaderEntered ''secrets:'') (newListener ''secrets''))
   \<and> calls (callback plainExtern (TargetHeaderEntered ''secrets:'') (newListener ''secrets'')) = []
   \<and> err (callback plainExtern (TargetHeaderEntered ''secrets:'') (newListener ''secrets''))
       = Some (Errorf reservedMsg [])"
proof -
  have t: "trimColon ''secrets:'' = ''secrets''"
    by (simp add: trimColon_def)
  have l: "executeTarget (newListener ''secrets'') = ''secrets''
           \<and> \<not> targetFound (newListener ''secrets'') \<and> err (newListener ''secrets'') = None
           \<and> calls (newListener ''secrets'') = []"
    by (simp add: newListener_def)
  from reserved_header_only_for_requested_target
         [of "''secrets:''" plainExtern "newListener ''secrets''"] t l
  show ?thesis by simp
qed

subsection \<open>The implicit FROM +base\<close>

lemma quiet_callback:
  assumes "quiet l" and "\<forall>t. ev = TargetHeaderEntered t \<longrightarrow> trimColon t \<noteq> executeTarget l"
  shows "quiet (callback x ev l) \<and> executeTarget (callback x ev l) = executeTarget l"
proof (cases "isHeader ev")
  case False
  have "shouldSkip l"
    using assms(1) by (simp add: quiet_def shouldSkip_def)
  then show ?thesis
    using False assms(1) by (simp add: skipped_callback)
next
  case True
  then obtain t where ev: "ev = TargetHeaderEntered t"
    by (cases ev) simp_all
  then have "trimColon t \<noteq> executeTarget l"
    using assms(2) by simp
  then show ?thesis
    using assms(1) ev
    by (simp add: EnterTargetHeader_def Let_def quiet_def shouldSkip_def)
qed

lemma quiet_walk:
  "quiet l \<Longrightarrow> \<forall>ev\<in>set evs. \<forall>t. ev = TargetHeaderEntered t \<longrightarrow> trimColon t \<noteq> executeTarget l
     \<Longrightarrow> quiet (walk x evs l) \<and> executeTarget (walk x evs l) = executeTarget l"
proof (induction evs arbitrary: l)
  case Nil
  then show ?case by simp
next
  case (Cons ev evs)
  have q: "quiet (callback x ev l) \<and> executeTarget (callback x ev l) = executeTarget l"
    using Cons.prems by (intro quiet_callback) simp_all
  show ?case
    using Cons.IH [of "callback x ev l"] q Cons.prems(2) by simp
qed

lemma baseFirst_callback:
  assumes "baseFirst l" and "executeTarget l \<noteq> ''base''"
  shows "baseFirst (callback x ev l)"
proof (cases "calls l = []")
  case False
  have "prefix (calls l) (calls (callback x ev l))"
    using kept_callback [of l x ev] by (simp add: kept_def)
  then obtain cs where "calls (callback x ev l) = calls l @ cs"
    by (auto simp add: prefix_def)
  then show ?thesis
    using False assms(1) by (simp add: baseFirst_def)
next
  case True
  then have sk: "shouldSkip l" and fo: "targetFound l \<longrightarrow> err l \<noteq> None"
    using assms(1) by (simp_all add: baseFirst_def)
  show ?thesis
  proof (cases "isHeader ev")
    case False
    then show ?thesis
      using sk assms(1) by (simp add: skipped_callback)
  next
    case h: True
    then obtain t where ev: "ev = TargetHeaderEntered t"
      by (cases ev) simp_all
    show ?thesis
      using True fo assms(2) unfolding ev
      by (auto simp add: EnterTargetHeader_def Let_def baseFirst_def shouldSkip_def setErr_def
            invokeOrFail_def invoke_def split: option.splits)
  qed
qed

lemma baseFirst_walk:
  "baseFirst l \<Longrightarrow> executeTarget l \<noteq> ''base'' \<Longrightarrow> baseFirst (walk x evs l)"
proof (induction evs arbitrary: l)
  case Nil
  then show ?case by simp
next
  case (Cons ev evs)
  have "executeTarget (callback x ev l) = executeTarget l"
    using kept_callback [of l x ev] by (simp add: kept_def)
  then show ?case
    using Cons baseFirst_callback [of l x ev] by simp
qed

text \<open>
  C5. For a requested target other than base, whatever the walk, the calls the
  converter has received are none at all or begin with \<^verbatim>\<open>From("+base", nil, nil)\<close>;
  and that call is made by the header itself: up to the first header of the requested
  target no call is made, and right after it (the name not being secrets, which is
  refused) the implicit FROM is the one call made.
\<close>

theorem implicit_from_base_first:
  assumes "target \<noteq> ''base''"
  shows "(calls (walk x evs (newListener target)) = []
            \<or> hd (calls (walk x evs (newListener target))) = From ''+base'' None [])
         \<and> ((\<forall>ev\<in>set pre. \<forall>t. ev = TargetHeaderEntered t \<longrightarrow> trimColon t \<noteq> target)
              \<and> trimColon h = target \<and> target \<noteq> ''secrets''
            \<longrightarrow> calls (walk x pre (newListener target)) = []
              \<and> calls (walk x (pre @ [TargetHeaderEntered h]) (newListener target))
                  = [From ''+base'' None []])"
proof -
  have b0: "baseFirst (newListener target)"
    using assms by (simp add: baseFirst_def newListener_def shouldSkip_def)
  have "baseFirst (walk x evs (newListener target))"
    using b0 assms by (intro baseFirst_walk) (simp_all add: newListener_def)
  then have first: "calls (walk x evs (newListener target)) = []
            \<or> hd (calls (walk x evs (newListener target))) = From ''+base'' None []"
    by (auto simp add: baseFirst_def)
  have second: "calls (walk x pre (newListener target)) = []
              \<and> calls (walk x (pre @ [TargetHeaderEntered h]) (newListener target))
                  = [From ''+base'' None []]"
    if pre: "\<forall>ev\<in>set pre. \<forall>t. ev = TargetHeaderEntered t \<longrightarrow> trimColon t \<noteq> target"
      and h: "trimColon h = target" and ns: "target \<noteq> ''secrets''"
  proof -
    have q0: "quiet (newListener target)"
      using assms by (simp add: quiet_def newListener_def)
    have q: "quiet (walk x pre (newListener target))
             \<and> executeTarget (walk x pre (newListener target)) = target"
      using quiet_walk [OF q0, of pre x] pre by (simp add: newListener_def)
    then show ?thesis
      using h ns assms
      by (simp add: walk_append quiet_def EnterTargetHeader_def Let_def shouldSkip_def
            invokeOrFail_def invoke_def setErr_def split: option.splits)
  qed
  show ?thesis
    using first second by blast
qed

theorem implicit_from_base_first_witness:
  "calls (walk plainExtern baseSection (newListener ''a'')) = []
   \<and> calls (walk plainExtern (baseSection @ [TargetHeaderEntered ''a:'']) (newListener ''a''))
       = [From ''+base'' None []]"
proof -
  have a: "''a'' \<noteq> ''base''"
    by simp
  have p: "\<forall>ev\<in>set baseSection. \<forall>t. ev = TargetHeaderEntered t \<longrightarrow> trimColon t \<noteq> ''a''"
    by (simp add: baseSection_def stmt_def)
  have t: "trimColon ''a:'' = ''a''"
    by (simp add: trimColon_def)
  have s: "''a'' \<noteq> ''secrets''"
    by simp
  from implicit_from_base_first [OF a, of plainExtern "[]" baseSection "''a:''"] p t s
  show ?thesis by blast
qed


subsection \<open>The WITH DOCKER block\<close>

lemma open_accepted:
  assumes "\<not> shouldSkip l" and "withDocker l = None" and "err (ExitWithDockerStmt x t l) = None"
  shows "withDocker (ExitWithDockerStmt x t l) \<noteq> None
       \<and> withDockerRan (ExitWithDockerStmt x t l) = withDockerRan l
       \<and> \<not> shouldSkip (ExitWithDockerStmt x t l)"
  using assms
  by (auto simp add: ExitWithDockerStmt_def Let_def setErr_def shouldSkip_def
        split: if_splits sum.splits prod.splits)

lemma inner_run_accepted:
  assumes "\<not> shouldSkip l" and "withDocker l \<noteq> None" and "err (ExitRunStmt x t l) = None"
  shows "withDocker (ExitRunStmt x t l) \<noteq> None \<and> withDockerRan (ExitRunStmt x t l)
       \<and> \<not> shouldSkip (ExitRunStmt x t l)"
  using assms
  by (auto simp add: ExitRunStmt_def Let_def setErr_def shouldSkip_def invokeOrFail_def invoke_def
        split: if_splits sum.splits prod.splits option.splits)

lemma end_accepted:
  assumes "\<not> shouldSkip l" and "stmtWords l = []" and "withDocker l \<noteq> None" and "withDockerRan l"
  shows "ExitEndStmt t l = l\<lparr>withDocker := None, withDockerRan := False\<rparr>"
  using assms by (auto simp add: ExitEndStmt_def)

lemma block_fails:
  assumes "\<not> shouldSkip l"
  shows "(withDocker l \<noteq> None \<longrightarrow> err (ExitWithDockerStmt x t l) \<noteq> None \<and> err (ExitStmts l) \<noteq> None)"
    and "(withDocker l = None \<or> \<not> withDockerRan l \<longrightarrow> err (ExitEndStmt t l) \<noteq> None)"
    and "(withDocker l \<noteq> None \<and> withDockerRan l \<longrightarrow>
            err (ExitRunStmt x t l) \<noteq> None \<and> calls (ExitRunStmt x t l) = calls l)"
  using assms
  by (auto simp add: ExitWithDockerStmt_def ExitStmts_def ExitEndStmt_def ExitRunStmt_def
        Let_def setErr_def split: sum.splits prod.splits)

lemma well_formed_block:
  assumes ns: "\<not> shouldSkip l" and idle: "withDocker l = None" "\<not> withDockerRan l"
    and e1: "err (walk x (stmt ws1 (WithDockerStmtExited t1)) l) = None"
    and e2: "err (walk x (stmt ws1 (WithDockerStmtExited t1) @ stmt ws2 (RunStmtExited t2)) l) = None"
  shows "err (walk x (stmt ws1 (WithDockerStmtExited t1) @ stmt ws2 (RunStmtExited t2)
                        @ stmt [] (EndStmtExited t3)) l) = None
       \<and> withDocker (walk x (stmt ws1 (WithDockerStmtExited t1) @ stmt ws2 (RunStmtExited t2)
                        @ stmt [] (EndStmtExited t3)) l) = None
       \<and> \<not> withDockerRan (walk x (stmt ws1 (WithDockerStmtExited t1) @ stmt ws2 (RunStmtExited t2)
                        @ stmt [] (EndStmtExited t3)) l)
       \<and> calls (walk x (stmt ws1 (WithDockerStmtExited t1) @ stmt ws2 (RunStmtExited t2)
                        @ stmt [] (EndStmtExited t3)) l)
           = calls (walk x (stmt ws1 (WithDockerStmtExited t1) @ stmt ws2 (RunStmtExited t2)) l)"
proof -
  let ?l1 = "ExitWithDockerStmt x t1 (entered ws1 l)"
  have w1: "walk x (stmt ws1 (WithDockerStmtExited t1)) l = ?l1"
    using ns by (simp add: stmt_walk)
  have o: "withDocker ?l1 \<noteq> None \<and> withDockerRan ?l1 = withDockerRan (entered ws1 l)
           \<and> \<not> shouldSkip ?l1"
    using ns idle e1 w1 by (intro open_accepted) simp_all
  let ?l2 = "ExitRunStmt x t2 (entered ws2 ?l1)"
  have w2: "walk x (stmt ws1 (WithDockerStmtExited t1) @ stmt ws2 (RunStmtExited t2)) l = ?l2"
    using o by (simp add: walk_append w1 stmt_walk)
  have r: "withDocker ?l2 \<noteq> None \<and> withDockerRan ?l2 \<and> \<not> shouldSkip ?l2"
    using o e2 w2 by (intro inner_run_accepted) simp_all
  let ?l3 = "ExitEndStmt t3 (entered [] ?l2)"
  have w3: "walk x (stmt ws1 (WithDockerStmtExited t1) @ stmt ws2 (RunStmtExited t2)
                        @ stmt [] (EndStmtExited t3)) l = ?l3"
    using r w2
    by (simp add: walk_append [of x "stmt ws1 (WithDockerStmtExited t1) @ stmt ws2 (RunStmtExited t2)",
                    simplified] stmt_walk)
  have "?l3 = (entered [] ?l2)\<lparr>withDocker := None, withDockerRan := False\<rparr>"
    using r by (intro end_accepted) simp_all
  then have "err ?l3 = None \<and> withDocker ?l3 = None \<and> \<not> withDockerRan ?l3
             \<and> calls ?l3 = calls ?l2"
    using e2 w2 by simp
  then show ?thesis
    unfolding w3 w2 .
qed

lemma resolvePlatform_entered [simp]:
  "resolvePlatform x (entered ws l) p = resolvePlatform x l p"
  by (simp add: resolvePlatform_def expandArgs_def)

lemma open_succeeds:
  assumes "\<not> shouldSkip l" and "withDocker l = None" and "\<not> pushOnlyAllowed l"
    and "opensBlock x ws l"
  shows "\<exists>wd. ExitWithDockerStmt x t (entered ws l) = (entered ws l)\<lparr>withDocker := Some wd\<rparr>"
  using assms
  by (auto simp add: ExitWithDockerStmt_def opensBlock_def Let_def
        split: sum.splits prod.splits)

lemma inner_run_succeeds:
  assumes "\<not> shouldSkip l" and "withDocker l \<noteq> None" and "\<not> withDockerRan l"
    and "\<not> pushOnlyAllowed l" and "plainRun x ws" and "\<forall>c. convResult x (calls l) c = None"
  shows "err (ExitRunStmt x t (entered ws l)) = None
       \<and> (\<exists>args wd. calls (ExitRunStmt x t (entered ws l)) = calls l @ [WithDockerRun args wd])"
proof -
  have "err l = None"
    using assms(1) by (simp add: shouldSkip_def)
  then show ?thesis
    using assms
    by (auto simp add: ExitRunStmt_def plainRun_def Let_def invokeOrFail_def invoke_def
          split: sum.splits prod.splits)
qed

lemma block_accepted:
  assumes ns: "\<not> shouldSkip l" and idle: "withDocker l = None" "\<not> withDockerRan l"
    and np: "\<not> pushOnlyAllowed l" and ob: "opensBlock x ws1 l" and pr: "plainRun x ws2"
    and ok: "\<forall>c. convResult x (calls l) c = None"
  shows "err (walk x (stmt ws1 (WithDockerStmtExited t1)) l) = None
       \<and> err (walk x (stmt ws1 (WithDockerStmtExited t1) @ stmt ws2 (RunStmtExited t2)) l) = None
       \<and> (\<exists>args wd. calls (walk x (stmt ws1 (WithDockerStmtExited t1) @ stmt ws2 (RunStmtExited t2)) l)
                       = calls l @ [WithDockerRun args wd])"
proof -
  obtain wd where
    l1: "ExitWithDockerStmt x t1 (entered ws1 l) = (entered ws1 l)\<lparr>withDocker := Some wd\<rparr>"
    using open_succeeds [OF ns idle(1) np ob] by blast
  let ?l1 = "(entered ws1 l)\<lparr>withDocker := Some wd\<rparr>"
  have w1: "walk x (stmt ws1 (WithDockerStmtExited t1)) l = ?l1"
    using ns l1 by (simp add: stmt_walk)
  have f1: "\<not> shouldSkip ?l1" "withDocker ?l1 \<noteq> None" "\<not> withDockerRan ?l1"
    "\<not> pushOnlyAllowed ?l1" "calls ?l1 = calls l" "err ?l1 = None"
    using ns idle np by (simp_all add: shouldSkip_def entered_def)
  have ok1: "\<forall>c. convResult x (calls ?l1) c = None"
    using ok f1(5) by simp
  have w2: "walk x (stmt ws1 (WithDockerStmtExited t1) @ stmt ws2 (RunStmtExited t2)) l
              = ExitRunStmt x t2 (entered ws2 ?l1)"
    using f1(1) by (simp add: walk_append w1 stmt_walk)
  from inner_run_succeeds [OF f1(1-4) pr ok1, of t2] f1(5,6) show ?thesis
    unfolding w1 w2 by simp
qed

lemma block_round_trip:
  assumes ns: "\<not> shouldSkip l" and idle: "withDocker l = None" "\<not> withDockerRan l"
    and np: "\<not> pushOnlyAllowed l" and ob: "opensBlock x ws1 l" and pr: "plainRun x ws2"
    and ok: "\<forall>c. convResult x (calls l) c = None"
  shows "err (walk x (stmt ws1 (WithDockerStmtExited t1) @ stmt ws2 (RunStmtExited t2)
                        @ stmt [] (EndStmtExited t3)) l) = None
       \<and> withDocker (walk x (stmt ws1 (WithDockerStmtExited t1) @ stmt ws2 (RunStmtExited t2)
                        @ stmt [] (EndStmtExited t3)) l) = None
       \<and> \<not> withDockerRan (walk x (stmt ws1 (WithDockerStmtExited t1) @ stmt ws2 (RunStmtExited t2)
                        @ stmt [] (EndStmtExited t3)) l)
       \<and> (\<exists>args wd. calls (walk x (stmt ws1 (WithDockerStmtExited t1) @ stmt ws2 (RunStmtExited t2)
                        @ stmt [] (EndStmtExited t3)) l) = calls l @ [WithDockerRun args wd])"
proof -
  have a: "err (walk x (stmt ws1 (WithDockerStmtExited t1)) l) = None"
    and b: "err (walk x (stmt ws1 (WithDockerStmtExited t1) @ stmt ws2 (RunStmtExited t2)) l) = None"
    and c: "\<exists>args wd. calls (walk x (stmt ws1 (WithDockerStmtExited t1) @ stmt ws2 (RunStmtExited t2)) l)
                       = calls l @ [WithDockerRun args wd]"
    using block_accepted [OF assms, of t1 t2] by blast+
  from well_formed_block [OF ns idle a b, of t3] c show ?thesis
    by simp
qed

text \<open>
  C6. In the requested target with no error latched: WITH DOCKER while a block is open
  fails, and so does the end of the statement list; END fails while no block is open
  and while the inner RUN has not run; a RUN in a block whose RUN has run fails and
  makes no call; and from the idle state (no block open, ran-flag clear, push-only mode
  off), a well-formed opener, one well-formed inner RUN that the converter accepts,
  and END latch no error, make the one \<^verbatim>\<open>WithDockerRun\<close> call and leave the tracker
  idle again: no block open and the ran-flag cleared.
\<close>

theorem with_docker_tracker:
  assumes "\<not> shouldSkip l"
  shows "(withDocker l \<noteq> None \<longrightarrow> err (ExitWithDockerStmt x t l) \<noteq> None \<and> err (ExitStmts l) \<noteq> None)
       \<and> (withDocker l = None \<or> \<not> withDockerRan l \<longrightarrow> err (ExitEndStmt t l) \<noteq> None)
       \<and> (withDocker l \<noteq> None \<and> withDockerRan l \<longrightarrow>
            err (ExitRunStmt x t l) \<noteq> None \<and> calls (ExitRunStmt x t l) = calls l)
       \<and> (withDocker l = None \<and> \<not> withDockerRan l \<and> \<not> pushOnlyAllowed l
          \<and> opensBlock x ws1 l \<and> plainRun x ws2 \<and> (\<forall>c. convResult x (calls l) c = None)
          \<longrightarrow> err (walk x (stmt ws1 (WithDockerStmtExited t1) @ stmt ws2 (RunStmtExited t2)
                        @ stmt [] (EndStmtExited t3)) l) = None
            \<and> withDocker (walk x (stmt ws1 (WithDockerStmtExited t1) @ stmt ws2 (RunStmtExited t2)
                        @ stmt [] (EndStmtExited t3)) l) = None
            \<and> \<not> withDockerRan (walk x (stmt ws1 (WithDockerStmtExited t1) @ stmt ws2 (RunStmtExited t2)
                        @ stmt [] (EndStmtExited t3)) l)
            \<and> (\<exists>args wd. calls (walk x (stmt ws1 (WithDockerStmtExited t1)
                        @ stmt ws2 (RunStmtExited t2) @ stmt [] (EndStmtExited t3)) l)
                   = calls l @ [WithDockerRun args wd]))"
  using block_fails(1) [OF assms, of x t] block_fails(2) [OF assms, of t]
    block_fails(3) [OF assms, of x t]
    block_round_trip [OF assms, where x = x and ?ws1.0 = ws1 and ?t1.0 = t1 and ?ws2.0 = ws2
      and ?t2.0 = t2 and ?t3.0 = t3]
  by blast

theorem with_docker_tracker_witness:
  "err (walk plainExtern
         (stmt [''--pull'', ''alpine''] (WithDockerStmtExited ''WITH DOCKER --pull alpine'')
          @ stmt [''docker'', ''ps''] (RunStmtExited ''RUN docker ps'')
          @ stmt [] (EndStmtExited ''END'')) inTarget) = None
   \<and> withDocker (walk plainExtern
         (stmt [''--pull'', ''alpine''] (WithDockerStmtExited ''WITH DOCKER --pull alpine'')
          @ stmt [''docker'', ''ps''] (RunStmtExited ''RUN docker ps'')
          @ stmt [] (EndStmtExited ''END'')) inTarget) = None
   \<and> \<not> withDockerRan (walk plainExtern
         (stmt [''--pull'', ''alpine''] (WithDockerStmtExited ''WITH DOCKER --pull alpine'')
          @ stmt [''docker'', ''ps''] (RunStmtExited ''RUN docker ps'')
          @ stmt [] (EndStmtExited ''END'')) inTarget)"
proof -
  have ns: "\<not> shouldSkip inTarget"
    by code_simp
  have idle: "withDocker inTarget = None \<and> \<not> withDockerRan inTarget \<and> \<not> pushOnlyAllowed inTarget"
    by code_simp
  have ob: "opensBlock plainExtern [''--pull'', ''alpine''] inTarget"
    by code_simp
  have pr: "plainRun plainExtern [''docker'', ''ps'']"
    by code_simp
  have ok: "\<forall>c. convResult plainExtern (calls inTarget) c = None"
    by (simp add: plainExtern_def)
  from with_docker_tracker [OF ns, where x = plainExtern
         and ?ws1.0 = "[''--pull'', ''alpine'']" and ?t1.0 = "''WITH DOCKER --pull alpine''"
         and ?ws2.0 = "[''docker'', ''ps'']" and ?t2.0 = "''RUN docker ps''" and ?t3.0 = "''END''"]
       idle ob pr ok
  show ?thesis by blast
qed

subsection \<open>SAVE ARTIFACT\<close>

text \<open>
  Joining two tokens with a space gives \<^verbatim>\<open>AS LOCAL\<close> only for the tokens AS and LOCAL.
\<close>

lemma joinSpace_AS_LOCAL: "joinSpace [a, b] = ''AS LOCAL'' \<longleftrightarrow> a = ''AS'' \<and> b = ''LOCAL''"
proof
  assume j: "joinSpace [a, b] = ''AS LOCAL''"
  then have eq: "a @ CHR '' '' # b = ''AS LOCAL''"
    by simp
  show "a = ''AS'' \<and> b = ''LOCAL''"
  proof (cases a)
    case Nil
    then show ?thesis using eq by simp
  next
    case (Cons c1 a1)
    show ?thesis
    proof (cases a1)
      case Nil
      then show ?thesis using eq Cons by simp
    next
      case (Cons c2 a2)
      note a1 = this
      show ?thesis
      proof (cases a2)
        case Nil
        then show ?thesis using eq \<open>a = c1 # a1\<close> a1 by simp
      next
        case (Cons c3 a3)
        then have "a3 @ CHR '' '' # b = ''LOCAL''"
          using eq \<open>a = c1 # a1\<close> a1 by simp
        then have "CHR '' '' \<in> set ''LOCAL''"
          by (metis in_set_conv_decomp)
        then show ?thesis by simp
      qed
    qed
  qed
next
  assume "a = ''AS'' \<and> b = ''LOCAL''"
  then show "joinSpace [a, b] = ''AS LOCAL''" by simp
qed

lemma slice_before_last:
  assumes "3 \<le> length args"
  shows "slice args (length args - 3) (length args - 1)
           = [args ! (length args - 3), args ! (length args - 2)]"
proof -
  let ?n = "length args"
  have d1: "drop (?n - 3) args = args ! (?n - 3) # drop (Suc (?n - 3)) args"
    using assms by (intro Cons_nth_drop_Suc [symmetric]) simp
  have s: "Suc (?n - 3) = ?n - 2"
    using assms by simp
  have d2: "drop (?n - 2) args = args ! (?n - 2) # drop (Suc (?n - 2)) args"
    using assms by (intro Cons_nth_drop_Suc [symmetric]) simp
  have two: "?n - 1 - (?n - 3) = Suc (Suc 0)"
    using assms by simp
  show ?thesis
    unfolding slice_def two d1 s d2 by simp
qed

lemma saveArtifactShape_accepted:
  assumes "1 \<le> length args" and "length args \<le> 5"
  shows "saveArtifactShape args \<noteq> None \<longleftrightarrow> acceptedShape args"
proof (cases "4 \<le> length args")
  case True
  then have "3 \<le> length args" by simp
  from slice_before_last [OF this] True assms(2) show ?thesis
    by (auto simp add: saveArtifactShape_def acceptedShape_def Let_def joinSpace_AS_LOCAL
          simp del: joinSpace.simps)
next
  case False
  then show ?thesis
    using assms(1) by (auto simp add: saveArtifactShape_def acceptedShape_def Let_def)
qed

lemma save_artifact_accepts:
  assumes "\<not> shouldSkip l" "\<not> pushOnlyAllowed l"
    and "parseFlags x saveArtifactFlags (stmtWords l) [] = Inr (vs, args)"
    and "acceptedShape args"
  shows "\<exists>src dst loc ts own ex.
           calls (ExitSaveArtifact x t l) = calls l @ [SaveArtifact src dst loc ts own ex]"
proof -
  have n: "1 \<le> length args" "length args \<le> 5"
    using assms(4) by (auto simp add: acceptedShape_def)
  then have "saveArtifactShape args \<noteq> None"
    using assms(4) saveArtifactShape_accepted by blast
  then obtain a b where ab: "saveArtifactShape args = Some (a, b)"
    by auto
  show ?thesis
    using assms(1-3) n ab
    by (auto simp add: ExitSaveArtifact_def Let_def invokeOrFail_def invoke_def setErr_def
          split: option.splits)
qed

lemma save_artifact_rejects:
  assumes "\<not> shouldSkip l" "\<not> pushOnlyAllowed l"
    and "parseFlags x saveArtifactFlags (stmtWords l) [] = Inr (vs, args)"
    and "\<not> acceptedShape args"
  shows "calls (ExitSaveArtifact x t l) = calls l \<and> err (ExitSaveArtifact x t l) \<noteq> None"
proof (cases "1 \<le> length args \<and> length args \<le> 5")
  case True
  then have "saveArtifactShape args = None"
    using assms(4) saveArtifactShape_accepted by blast
  then show ?thesis
    using assms(1-3) True by (simp add: ExitSaveArtifact_def Let_def setErr_def)
next
  case False
  then have "length args = 0 \<or> 5 < length args"
    by (cases args) auto
  then show ?thesis
    using assms(1-3) by (auto simp add: ExitSaveArtifact_def Let_def setErr_def)
qed

lemma save_artifact_example:
  assumes "\<not> shouldSkip l" "\<not> pushOnlyAllowed l"
    and "stmtWords l = [''./out'', ''AS'', ''LOCAL'', ''./local-out'']"
    and "convExpandArgs x (calls l) ''./out'' = ''./out''"
    and "convExpandArgs x (calls l) ''./'' = ''./''"
    and "convExpandArgs x (calls l) ''./local-out'' = ''./local-out''"
  shows "calls (ExitSaveArtifact x t l)
           = calls l @ [SaveArtifact ''./out'' ''./'' ''./local-out'' False False False]"
  using assms
  by (simp add: ExitSaveArtifact_def Let_def saveArtifactShape_def slice_def expandArgs_def
        backslash_def boolOpt_def invokeOrFail_def invoke_def setErr_def split: option.splits)

text \<open>
  C7. A SAVE ARTIFACT that is processed outside push-only mode and whose options
  decode calls \<^verbatim>\<open>SaveArtifact\<close> once when its positional arguments have an accepted
  shape (one, two, or four or five with AS LOCAL before the last), and otherwise fails
  without a call; and \<^verbatim>\<open>SAVE ARTIFACT ./out AS LOCAL ./local-out\<close>, none of its
  strings holding a variable, makes the one call with source \<^verbatim>\<open>./out\<close>, destination
  \<^verbatim>\<open>./\<close> and local destination \<^verbatim>\<open>./local-out\<close>.
\<close>

theorem save_artifact_arity:
  assumes "\<not> shouldSkip l" and "\<not> pushOnlyAllowed l"
    and "parseFlags x saveArtifactFlags (stmtWords l) [] = Inr (vs, args)"
  shows "(acceptedShape args
            \<longrightarrow> (\<exists>src dst loc ts own ex.
                   calls (ExitSaveArtifact x t l) = calls l @ [SaveArtifact src dst loc ts own ex]))
       \<and> (\<not> acceptedShape args
            \<longrightarrow> calls (ExitSaveArtifact x t l) = calls l \<and> err (ExitSaveArtifact x t l) \<noteq> None)
       \<and> (stmtWords l = [''./out'', ''AS'', ''LOCAL'', ''./local-out'']
            \<and> convExpandArgs x (calls l) ''./out'' = ''./out''
            \<and> convExpandArgs x (calls l) ''./'' = ''./''
            \<and> convExpandArgs x (calls l) ''./local-out'' = ''./local-out''
            \<longrightarrow> calls (ExitSaveArtifact x t l)
                  = calls l @ [SaveArtifact ''./out'' ''./'' ''./local-out'' False False False])"
  using save_artifact_accepts [OF assms, of t] save_artifact_rejects [OF assms, of t]
    save_artifact_example [OF assms(1,2), of x t]
  by blast

theorem save_artifact_arity_witness:
  "calls (ExitSaveArtifact plainExtern ''SAVE ARTIFACT ./out AS LOCAL ./local-out''
            (entered [''./out'', ''AS'', ''LOCAL'', ''./local-out''] inTarget))
     = calls (entered [''./out'', ''AS'', ''LOCAL'', ''./local-out''] inTarget)
         @ [SaveArtifact ''./out'' ''./'' ''./local-out'' False False False]"
proof -
  let ?l = "entered [''./out'', ''AS'', ''LOCAL'', ''./local-out''] inTarget"
  have ns: "\<not> shouldSkip ?l"
    by code_simp
  have np: "\<not> pushOnlyAllowed ?l"
    by code_simp
  have pf: "parseFlags plainExtern saveArtifactFlags (stmtWords ?l) []
              = Inr ([], [''./out'', ''AS'', ''LOCAL'', ''./local-out''])"
    by code_simp
  have ws: "stmtWords ?l = [''./out'', ''AS'', ''LOCAL'', ''./local-out'']"
    by code_simp
  have ex: "convExpandArgs plainExtern (calls ?l) ''./out'' = ''./out''
            \<and> convExpandArgs plainExtern (calls ?l) ''./'' = ''./''
            \<and> convExpandArgs plainExtern (calls ?l) ''./local-out'' = ''./local-out''"
    by (simp add: plainExtern_def)
  from save_artifact_arity [OF ns np pf, of "''SAVE ARTIFACT ./out AS LOCAL ./local-out''"] ws ex
  show ?thesis by blast
qed

subsection \<open>SAVE IMAGE without image names\<close>

text \<open>
  C8. A SAVE IMAGE that is processed, whose options decode and leave no positional
  argument: without the push, cache-hint and cache-from options (and outside push-only
  mode) it makes no call and sets no error; with the push option it fails with the
  invalid-number-of-arguments error and makes no call.
\<close>

theorem save_image_without_names:
  assumes "\<not> shouldSkip l" and "parseFlags x saveImageFlags (stmtWords l) [] = Inr (vs, [])"
  shows "(\<not> pushOnlyAllowed l \<and> \<not> boolOpt vs ''push'' \<and> \<not> boolOpt vs ''cache-hint''
            \<and> sliceOpt vs ''cache-from'' = []
          \<longrightarrow> calls (ExitSaveImage x t l) = calls l \<and> err (ExitSaveImage x t l) = None)
       \<and> (boolOpt vs ''push''
          \<longrightarrow> calls (ExitSaveImage x t l) = calls l
            \<and> err (ExitSaveImage x t l)
                = Some (Errorf ''invalid number of arguments for SAVE IMAGE --push: %v'' (stmtWords l)))"
  using assms by (auto simp add: ExitSaveImage_def Let_def setErr_def shouldSkip_def)

theorem save_image_without_names_witness:
  "calls (ExitSaveImage plainExtern ''SAVE IMAGE'' (entered [] inTarget)) = calls (entered [] inTarget)
   \<and> err (ExitSaveImage plainExtern ''SAVE IMAGE'' (entered [] inTarget)) = None
   \<and> err (ExitSaveImage plainExtern ''SAVE IMAGE --push'' (entered [''--push''] inTarget))
       = Some (Errorf ''invalid number of arguments for SAVE IMAGE --push: %v'' [''--push''])"
proof -
  have ns: "\<not> shouldSkip (entered [] inTarget)"
    by code_simp
  have pf: "parseFlags plainExtern saveImageFlags (stmtWords (entered [] inTarget)) [] = Inr ([], [])"
    by code_simp
  have np: "\<not> pushOnlyAllowed (entered [] inTarget)"
    by code_simp
  have o: "\<not> boolOpt [] ''push'' \<and> \<not> boolOpt [] ''cache-hint'' \<and> sliceOpt [] ''cache-from'' = []"
    by (simp add: boolOpt_def)
  have ns2: "\<not> shouldSkip (entered [''--push''] inTarget)"
    by code_simp
  have pf2: "parseFlags plainExtern saveImageFlags (stmtWords (entered [''--push''] inTarget)) []
               = Inr ([(''push'', BoolV True)], [])"
    by code_simp
  have o2: "boolOpt [(''push'', BoolV True)] ''push''"
    by (simp add: boolOpt_def)
  have w2: "stmtWords (entered [''--push''] inTarget) = [''--push'']"
    by code_simp
  from save_image_without_names [OF ns pf, of "''SAVE IMAGE''"] np o
    save_image_without_names [OF ns2 pf2, of "''SAVE IMAGE --push''"] o2 w2
  show ?thesis by simp
qed

subsection \<open>RUN without a command\<close>

text \<open>
  C9. The claim is that a RUN whose positional arguments are empty after the options are
  decoded fails and makes no call. The handler tests the number of words before it
  decodes the options: \<^verbatim>\<open>RUN --privileged\<close> has one word, so it passes the test, and
  the converter's \<^verbatim>\<open>Run\<close> is called with an empty command; the walk succeeds.
\<close>

theorem run_with_only_options_reaches_converter:
  "calls (walk plainExtern runOnlyOptions (newListener ''a''))
     = [From ''+base'' None [], Run [] [] [] True False False True False False]
   \<and> Err (walk plainExtern runOnlyOptions (newListener ''a'')) = None"
  by code_simp

subsection \<open>The base target\<close>

text \<open>
  C10. When the requested target is base, the found flag is set from the start and
  stays set: after any walk the reported result is the latched error itself (success
  when there is none, never target-not-found), and a header named base met at any
  point fails as declared twice.
\<close>

theorem base_target_always_found:
  "targetFound (newListener ''base'')
   \<and> Err (walk x evs (newListener ''base'')) = err (walk x evs (newListener ''base''))
   \<and> (trimColon t = ''base'' \<longrightarrow>
        err (callback x (TargetHeaderEntered t) (walk x evs (newListener ''base'')))
          = Some (Errorf ''target %s is declared twice'' [''base'']))"
proof -
  let ?l = "walk x evs (newListener ''base'')"
  have k: "kept (newListener ''base'') ?l"
    by (rule kept_walk)
  have found: "targetFound ?l" and tgt: "executeTarget ?l = ''base''"
    using k by (simp_all add: kept_def newListener_def)
  have "Err ?l = err ?l"
    using found by (simp add: Err_def)
  moreover have "trimColon t = ''base'' \<longrightarrow>
        err (callback x (TargetHeaderEntered t) ?l)
          = Some (Errorf ''target %s is declared twice'' [''base''])"
    using found tgt by (simp add: EnterTargetHeader_def Let_def setErr_def)
  moreover have "targetFound (newListener ''base'')"
    by (simp add: newListener_def)
  ultimately show ?thesis by blast
qed

theorem base_target_always_found_witness:
  "Err (walk plainExtern baseSection (newListener ''base''))
     = err (walk plainExtern baseSection (newListener ''base''))
   \<and> err (walk plainExtern baseSection (newListener ''base'')) = None
   \<and> err (callback plainExtern (TargetHeaderEntered ''base:'')
            (walk plainExtern baseSection (newListener ''base'')))
       = Some (Errorf ''target %s is declared twice'' [''base''])"
proof -
  have t: "trimColon ''base:'' = ''base''"
    by (simp add: trimColon_def)
  have e: "err (walk plainExtern baseSection (newListener ''base'')) = None"
    by code_simp
  from base_target_always_found [of plainExtern baseSection "''base:''"] t e
  show ?thesis by blast
qed


end
